theory Spec2Isabelle
  imports Main
begin

section \<open>Panel layout and colour choice of \<open>codes/viz.py\<close>\<close>

text \<open>
  The module draws panels of plots. Two functions lay plots out on a grid:
  \<open>hist_panel\<close> (one histogram per column of a table, through
  \<open>fig.add_subplot(rows, 2, i + 1)\<close> and \<open>hist_plot\<close>) and \<open>box_plot\<close> (one box plot per
  column, through \<open>axes[i // fig_cols, i % fig_cols]\<close>). Both compute the number of grid
  rows with Python's floor division \<open>//\<close> and pick a colour with
  \<open>random.choice(COLORS)\<close>.

  Python integers are \<open>int\<close>; \<open>//\<close> and \<open>%\<close> on them are floor division and the
  remainder with the divisor's sign, which is what \<open>div\<close> and \<open>mod\<close> on \<open>int\<close> are.
  Exceptions are values of \<open>error\<close>. The random generator is a function \<open>d\<close> giving
  the raw outcome of the \<open>k\<close>-th draw. Calls into the table and plotting libraries
  whose outcome depends on the data of a column are parameters.
\<close>

subsection \<open>Errors and Python arithmetic\<close>

datatype error =
  ZeroDivisionError | ValueError | IndexError | TypeError | KeyError | AttributeError

text \<open>Python's \<open>a // b\<close> on integers.\<close>

definition floordiv :: "int \<Rightarrow> int \<Rightarrow> error + int" where
  "floordiv a b = (if b = 0 then Inl ZeroDivisionError else Inr (a div b))"

type_synonym cell = "int \<times> int"

subsection \<open>Tables\<close>

text \<open>
  The table given to \<open>hist_panel\<close> and \<open>box_plot\<close> is a list of columns. A column has
  a label, which is a string or, as for a table made from a bare matrix, an integer,
  and its values. \<open>data.shape[1]\<close> is the number of columns.
\<close>

datatype col_name = StrName string | IntName int

record 'v series =
  col_label :: col_name
  col_values :: "'v list"

text \<open>
  \<open>data.iloc[:, i]\<close>: the column at position \<open>i\<close>, a negative position counting from the
  end, IndexError outside the table.
\<close>

definition iloc :: "'v series list \<Rightarrow> int \<Rightarrow> error + 'v series" where
  "iloc data i =
     (let n = int (length data); j = (if i < 0 then n + i else i)
      in if 0 \<le> j \<and> j < n then Inr (data ! nat j) else Inl IndexError)"

subsection \<open>What the plotting and random libraries do with the arguments\<close>

text \<open>
  \<open>fig.add_subplot(nrows, ncols, num)\<close> is a call into the plotting library. The library
  refuses a grid without rows or columns and a position outside \<open>1 .. nrows * ncols\<close>
  (a ValueError in both cases); otherwise it numbers the cells row by row, so that
  position \<open>num\<close> is the cell \<open>((num - 1) div ncols, (num - 1) mod ncols)\<close>.
\<close>

definition add_subplot :: "int \<Rightarrow> int \<Rightarrow> int \<Rightarrow> error + cell" where
  "add_subplot nrows ncols num =
     (if nrows \<le> 0 \<or> ncols \<le> 0 then Inl ValueError
      else if num < 1 \<or> nrows * ncols < num then Inl ValueError
      else Inr ((num - 1) div ncols, (num - 1) mod ncols))"

text \<open>A cell lies in the grid of \<open>nrows\<close> by \<open>ncols\<close> cells.\<close>

definition in_grid :: "int \<Rightarrow> int \<Rightarrow> cell \<Rightarrow> bool" where
  "in_grid nrows ncols c = (0 \<le> fst c \<and> fst c < nrows \<and> 0 \<le> snd c \<and> snd c < ncols)"

text \<open>
  \<open>random.choice(seq)\<close> raises IndexError on an empty sequence and returns
  \<open>seq[k]\<close> for a drawn \<open>k\<close> below \<open>len(seq)\<close> otherwise. The draw is modelled by
  reducing the generator's raw outcome \<open>r\<close> below the length: every position of the
  sequence can be drawn and nothing else can.
\<close>

definition random_choice :: "'c list \<Rightarrow> nat \<Rightarrow> error + 'c" where
  "random_choice seq r =
     (if seq = [] then Inl IndexError else Inr (seq ! (r mod length seq)))"

subsection \<open>The state of a panel\<close>

text \<open>
  \<open>axes\<close>: the grid cells that hold an axes object, in the order they were made;
  \<open>plots\<close>: the plots drawn so far, each with its cell and colour;
  \<open>draws\<close>: how many times the random generator has been used.
  The single default axes that \<open>plt.subplots(figsize=...)\<close> puts on the figure of
  \<open>hist_panel\<close> before the loop is not a cell of the layout grid and is not recorded;
  neither are the titles and axis labels.
\<close>

record 'c panel =
  axes :: "cell list"
  plots :: "(cell \<times> 'c) list"
  draws :: nat

definition empty_panel :: "'c panel" where
  "empty_panel = \<lparr>axes = [], plots = [], draws = 0\<rparr>"

subsection \<open>\<open>hist_plot\<close>\<close>

text \<open>
  \<open>hist_plot(ax, ds, col, cut)\<close>, line by line:
  \<^item> \<open>xlim = (ds.min(), [ds.max(), ds.quantile(0.95)][int(cut)])\<close> asks the table library
    for the range of the column; \<open>ds_range\<close> is that computation, which may raise (a
    column that is not numeric);
  \<^item> \<open>ax.hist(ds, range=xlim, edgecolor='black', color=col)\<close> draws the histogram;
    \<open>ax_hist\<close> is its outcome, \<open>None\<close> when the histogram is drawn and the error
    otherwise (an empty column has no range to draw in). The colours of the palette
    are valid colours, so the outcome does not depend on \<open>col\<close>;
  \<^item> \<open>ax.set_xlabel(ds.name.title(), ...)\<close>: only a string has \<open>title\<close>; a column
    labelled by an integer raises AttributeError here, after the histogram is drawn;
  \<^item> \<open>ax.set_ylabel("Frequency", ...)\<close> cannot fail.
  The result says whether the histogram was drawn on the axes and which error, if any,
  ended the call.
\<close>

definition hist_plot ::
  "('v list \<Rightarrow> bool \<Rightarrow> error + 'r) \<Rightarrow> ('v list \<Rightarrow> 'r \<Rightarrow> error option) \<Rightarrow>
   cell \<Rightarrow> 'v series \<Rightarrow> 'c \<Rightarrow> bool \<Rightarrow> bool \<times> error option"
where
  "hist_plot ds_range ax_hist ax ds col cutoff =
     (case ds_range (col_values ds) cutoff of
        Inl e \<Rightarrow> (False, Some e)
      | Inr xlim \<Rightarrow>
          (case ax_hist (col_values ds) xlim of
             Some e \<Rightarrow> (False, Some e)
           | None \<Rightarrow>
               (case col_label ds of
                  StrName s \<Rightarrow> (True, None)
                | IntName n \<Rightarrow> (True, Some AttributeError))))"

subsection \<open>\<open>hist_panel\<close>\<close>

text \<open>
  The loop \<open>for i in range(count)\<close> of \<open>hist_panel\<close>, over the list of indices still to
  visit. One round: \<open>fig.add_subplot(rows, 2, i + 1)\<close>; then the arguments of
  \<open>hist_plot\<close> in order, \<open>data.iloc[:, i]\<close> and \<open>random.choice(COLORS)\<close>; then
  \<open>hist_plot\<close> itself. An exception ends the loop and leaves the panel as it was at
  that moment. The number of columns of the grid, the literal \<open>2\<close> of the source, is the
  parameter \<open>fig_cols\<close>.
\<close>

fun hist_loop ::
  "'c list \<Rightarrow> (nat \<Rightarrow> nat) \<Rightarrow> ('v list \<Rightarrow> bool \<Rightarrow> error + 'r) \<Rightarrow>
   ('v list \<Rightarrow> 'r \<Rightarrow> error option) \<Rightarrow> 'v series list \<Rightarrow> bool \<Rightarrow>
   int \<Rightarrow> int \<Rightarrow> int list \<Rightarrow> 'c panel \<Rightarrow> 'c panel \<times> error option"
where
  "hist_loop colors d ds_range ax_hist data cutoff rows fig_cols [] p = (p, None)"
| "hist_loop colors d ds_range ax_hist data cutoff rows fig_cols (i # is) p =
     (case add_subplot rows fig_cols (i + 1) of
        Inl e \<Rightarrow> (p, Some e)
      | Inr ax_sub \<Rightarrow>
          (let p1 = p\<lparr>axes := axes p @ [ax_sub]\<rparr> in
           case iloc data i of
             Inl e \<Rightarrow> (p1, Some e)
           | Inr ds \<Rightarrow>
               (case random_choice colors (d (draws p1)) of
                  Inl e \<Rightarrow> (p1, Some e)
                | Inr col \<Rightarrow>
                    (let p2 = p1\<lparr>draws := Suc (draws p1)\<rparr>;
                         res = hist_plot ds_range ax_hist ax_sub ds col cutoff;
                         p3 = (if fst res then p2\<lparr>plots := plots p2 @ [(ax_sub, col)]\<rparr>
                               else p2)
                     in case snd res of
                          Some e \<Rightarrow> (p3, Some e)
                        | None \<Rightarrow>
                            hist_loop colors d ds_range ax_hist data cutoff rows fig_cols is p3))))"

text \<open>
  \<open>hist_panel\<close> with the number of grid columns as a parameter:
  \<open>count = data.shape[1]\<close>, \<open>rows = count // fig_cols\<close>, then the loop over
  \<open>range(count)\<close>, which is \<open>[0..count - 1]\<close>. The title that \<open>fig.suptitle\<close> sets after
  the loop is not recorded.
\<close>

definition hist_panel_gen ::
  "'c list \<Rightarrow> (nat \<Rightarrow> nat) \<Rightarrow> ('v list \<Rightarrow> bool \<Rightarrow> error + 'r) \<Rightarrow>
   ('v list \<Rightarrow> 'r \<Rightarrow> error option) \<Rightarrow> int \<Rightarrow> 'v series list \<Rightarrow> bool \<Rightarrow>
   'c panel \<times> error option"
where
  "hist_panel_gen colors d ds_range ax_hist fig_cols data cutoff =
     (let count = int (length data) in
      case floordiv count fig_cols of
        Inl e \<Rightarrow> (empty_panel, Some e)
      | Inr rows \<Rightarrow>
          hist_loop colors d ds_range ax_hist data cutoff rows fig_cols [0..count - 1]
            empty_panel)"

text \<open>The source's \<open>hist_panel\<close>: two histograms in a row.\<close>

definition hist_panel ::
  "'c list \<Rightarrow> (nat \<Rightarrow> nat) \<Rightarrow> ('v list \<Rightarrow> bool \<Rightarrow> error + 'r) \<Rightarrow>
   ('v list \<Rightarrow> 'r \<Rightarrow> error option) \<Rightarrow> 'v series list \<Rightarrow> bool \<Rightarrow>
   'c panel \<times> error option"
where
  "hist_panel colors d ds_range ax_hist data cutoff =
     hist_panel_gen colors d ds_range ax_hist 2 data cutoff"

subsection \<open>\<open>box_plot\<close>\<close>

text \<open>
  \<open>plt.subplots(nrows=fig_rows, ncols=fig_cols)\<close> is a call into the plotting library:
  it refuses a grid without rows or columns (ValueError) and returns the axes squeezed:
  the axes object itself for a grid of one cell, a one-dimensional array when the
  grid has one row or one column, a two-dimensional array otherwise.
\<close>

datatype axes_array = Single | Row int | Grid int int

definition subplots :: "int \<Rightarrow> int \<Rightarrow> error + axes_array" where
  "subplots nrows ncols =
     (if nrows \<le> 0 \<or> ncols \<le> 0 then Inl ValueError
      else if nrows = 1 \<and> ncols = 1 then Inr Single
      else if nrows = 1 then Inr (Row ncols)
      else if ncols = 1 then Inr (Row nrows)
      else Inr (Grid nrows ncols))"

text \<open>
  \<open>axes[r, c]\<close> indexes with the pair \<open>(r, c)\<close>: an axes object cannot be subscripted
  (TypeError), a one-dimensional array has no second index (IndexError), and a
  two-dimensional array of shape \<open>(nr, nc)\<close> takes \<open>- nr \<le> r < nr\<close> and
  \<open>- nc \<le> c < nc\<close>, a negative index counting from the end (IndexError otherwise).
\<close>

definition axes_index :: "axes_array \<Rightarrow> cell \<Rightarrow> error + cell" where
  "axes_index arr rc =
     (case arr of
        Single \<Rightarrow> Inl TypeError
      | Row n \<Rightarrow> Inl IndexError
      | Grid nr nc \<Rightarrow>
          (if - nr \<le> fst rc \<and> fst rc < nr \<and> - nc \<le> snd rc \<and> snd rc < nc
           then Inr (if fst rc < 0 then fst rc + nr else fst rc,
                     if snd rc < 0 then snd rc + nc else snd rc)
           else Inl IndexError))"

text \<open>
  The index pair \<open>i // fig_cols, i % fig_cols\<close> that \<open>box_plot\<close> computes for the
  \<open>i\<close>-th column of the table.
\<close>

definition cell_of :: "int \<Rightarrow> int \<Rightarrow> cell" where
  "cell_of fig_cols i = (i div fig_cols, i mod fig_cols)"

text \<open>\<open>enumerate(data.columns)\<close>, each position with its column \<open>data[col_name]\<close>.\<close>

definition enumerate_columns :: "'v series list \<Rightarrow> (int \<times> 'v series) list" where
  "enumerate_columns data = zip [0..int (length data) - 1] data"

text \<open>
  The loop \<open>for i, col_name in enumerate(data.columns)\<close> of \<open>box_plot\<close>. One round:
  the keyword arguments of \<open>sns.boxplot\<close> are evaluated in order, first
  \<open>axes[i // fig_cols, i % fig_cols]\<close>, then \<open>random.choice(COLORS)\<close>; then the
  library draws the box plot, and \<open>sns_boxplot\<close> is the outcome of that call on the
  column (it does not depend on the colour, a valid colour of the palette). The loop
  is only reached after \<open>n_cols // fig_cols\<close> has been computed, so \<open>fig_cols\<close> is not
  zero in it.
\<close>

fun box_loop ::
  "'c list \<Rightarrow> (nat \<Rightarrow> nat) \<Rightarrow> ('v series \<Rightarrow> error option) \<Rightarrow> axes_array \<Rightarrow> int \<Rightarrow>
   (int \<times> 'v series) list \<Rightarrow> 'c panel \<Rightarrow> 'c panel \<times> error option"
where
  "box_loop colors d sns_boxplot arr fig_cols [] p = (p, None)"
| "box_loop colors d sns_boxplot arr fig_cols ((i, subdata) # rest) p =
     (case axes_index arr (cell_of fig_cols i) of
        Inl e \<Rightarrow> (p, Some e)
      | Inr ax \<Rightarrow>
          (case random_choice colors (d (draws p)) of
             Inl e \<Rightarrow> (p, Some e)
           | Inr col \<Rightarrow>
               (let p2 = p\<lparr>draws := Suc (draws p)\<rparr> in
                case sns_boxplot subdata of
                  Some e \<Rightarrow> (p2, Some e)
                | None \<Rightarrow>
                    box_loop colors d sns_boxplot arr fig_cols rest
                      (p2\<lparr>plots := plots p2 @ [(ax, col)]\<rparr>))))"

text \<open>
  \<open>box_plot\<close> with \<open>fig_cols\<close> (set to \<open>2\<close> in the source) as a parameter:
  \<open>n_cols = data.shape[1]\<close>, \<open>fig_rows = n_cols // fig_cols\<close>, the grid of \<open>fig_rows\<close> by
  \<open>fig_cols\<close> axes, and the loop over the columns of the table.
\<close>

definition box_plot_gen ::
  "'c list \<Rightarrow> (nat \<Rightarrow> nat) \<Rightarrow> ('v series \<Rightarrow> error option) \<Rightarrow> int \<Rightarrow> 'v series list \<Rightarrow>
   'c panel \<times> error option"
where
  "box_plot_gen colors d sns_boxplot fig_cols data =
     (let n_cols = int (length data) in
      case floordiv n_cols fig_cols of
        Inl e \<Rightarrow> (empty_panel, Some e)
      | Inr fig_rows \<Rightarrow>
          (case subplots fig_rows fig_cols of
             Inl e \<Rightarrow> (empty_panel, Some e)
           | Inr arr \<Rightarrow>
               box_loop colors d sns_boxplot arr fig_cols (enumerate_columns data)
                 (empty_panel\<lparr>axes := List.product [0..fig_rows - 1] [0..fig_cols - 1]\<rparr>)))"

definition box_plot ::
  "'c list \<Rightarrow> (nat \<Rightarrow> nat) \<Rightarrow> ('v series \<Rightarrow> error option) \<Rightarrow> 'v series list \<Rightarrow>
   'c panel \<times> error option"
where
  "box_plot colors d sns_boxplot data = box_plot_gen colors d sns_boxplot 2 data"

subsection \<open>The palette\<close>

text \<open>
  \<open>COLORS = list(sns.color_palette("Set2")) + list(sns.color_palette("Set3"))\<close>: the
  two palettes are tables of the plotting library, parameters here.
\<close>

definition COLORS :: "'c list \<Rightarrow> 'c list \<Rightarrow> 'c list" where
  "COLORS set2 set3 = set2 @ set3"

text \<open>
  The library's tables, as red, green and blue bytes: the qualitative ColorBrewer
  palettes Set2 (8 colours) and Set3 (12 colours). The source names them only.
\<close>

definition palette_Set2 :: "(nat \<times> nat \<times> nat) list" where
  "palette_Set2 =
     [(102, 194, 165), (252, 141, 98), (141, 160, 203), (231, 138, 195),
      (166, 216, 84), (255, 217, 47), (229, 196, 148), (179, 179, 179)]"

definition palette_Set3 :: "(nat \<times> nat \<times> nat) list" where
  "palette_Set3 =
     [(141, 211, 199), (255, 255, 179), (190, 186, 218), (251, 128, 114),
      (128, 177, 211), (253, 180, 98), (179, 222, 105), (252, 205, 229),
      (217, 217, 217), (188, 128, 189), (204, 235, 197), (255, 237, 111)]"

subsection \<open>\<open>read_data\<close>\<close>

text \<open>
  A table has named columns and rows of cells; a cell is \<open>None\<close> when the value is
  missing. \<open>pd.read_csv\<close> and \<open>pd.to_datetime\<close> belong to the table library and are
  parameters: \<open>read_csv\<close> maps a path to a table or an error, \<open>to_datetime\<close> maps a
  column's cells to the parsed cells or an error.
\<close>

record 'v frame =
  columns :: "string list"
  rowlist :: "'v option list list"

definition INPUT_DIR :: string where
  "INPUT_DIR = ''../data/''"

text \<open>\<open>data.dropna(axis=0)\<close>: keep the rows without a missing value.\<close>

definition dropna :: "'v frame \<Rightarrow> 'v frame" where
  "dropna data = data\<lparr>rowlist := filter (list_all (\<lambda>v. v \<noteq> None)) (rowlist data)\<rparr>"

fun col_index :: "string \<Rightarrow> string list \<Rightarrow> nat option" where
  "col_index name [] = None"
| "col_index name (c # cs) =
     (if c = name then Some 0 else map_option Suc (col_index name cs))"

text \<open>\<open>data[name]\<close>: the cells of a column, KeyError when there is no such column.\<close>

definition get_column :: "'v frame \<Rightarrow> string \<Rightarrow> error + 'v option list" where
  "get_column data name =
     (case col_index name (columns data) of
        None \<Rightarrow> Inl KeyError
      | Some j \<Rightarrow> Inr (map (\<lambda>r. r ! j) (rowlist data)))"

text \<open>
  \<open>data[name] = series\<close> for a column that exists: its cells are replaced, row by row.
  A series of another length than the table is refused (ValueError).
\<close>

definition set_column :: "'v frame \<Rightarrow> string \<Rightarrow> 'v option list \<Rightarrow> error + 'v frame" where
  "set_column data name series =
     (case col_index name (columns data) of
        None \<Rightarrow> Inl KeyError
      | Some j \<Rightarrow>
          (if length series \<noteq> length (rowlist data) then Inl ValueError
           else Inr (data\<lparr>rowlist := map2 (\<lambda>r v. r[j := v]) (rowlist data) series\<rparr>)))"

text \<open>\<open>data[name] = pd.to_datetime(data[name])\<close>.\<close>

definition parse_column ::
  "('v option list \<Rightarrow> error + 'v option list) \<Rightarrow> 'v frame \<Rightarrow> string \<Rightarrow> error + 'v frame"
where
  "parse_column to_datetime data name =
     (case get_column data name of
        Inl e \<Rightarrow> Inl e
      | Inr series \<Rightarrow>
          (case to_datetime series of
             Inl e \<Rightarrow> Inl e
           | Inr parsed \<Rightarrow> set_column data name parsed))"

text \<open>
  \<open>read_data\<close>. The first component of the result lists the paths given to
  \<open>read_csv\<close>, in order.
\<close>

definition read_data ::
  "(string \<Rightarrow> error + 'v frame) \<Rightarrow> ('v option list \<Rightarrow> error + 'v option list) \<Rightarrow>
   string \<Rightarrow> bool \<Rightarrow> string list \<times> (error + 'v frame)"
where
  "read_data read_csv to_datetime file_name drop_na =
     ([INPUT_DIR @ file_name],
      (case read_csv (INPUT_DIR @ file_name) of
         Inl e \<Rightarrow> Inl e
       | Inr data \<Rightarrow>
           (let data1 = (if drop_na then dropna data else data) in
            case parse_column to_datetime data1 ''date_posted'' of
              Inl e \<Rightarrow> Inl e
            | Inr data2 \<Rightarrow> parse_column to_datetime data2 ''datefullyfunded'')))"

section \<open>Properties\<close>

subsection \<open>Integer division\<close>

lemma int_div_mult_le:
  fixes a c :: int
  assumes "0 < c"
  shows "(a div c) * c \<le> a"
proof -
  have "(a div c) * c + a mod c = a" by simp
  moreover have "0 \<le> a mod c" using assms by simp
  ultimately show ?thesis by linarith
qed

lemma int_div_less_rows:
  fixes a c r :: int
  assumes "0 < c" "a < r * c"
  shows "a div c < r"
proof (rule ccontr)
  assume "\<not> a div c < r"
  then have "r \<le> a div c" by simp
  then have "r * c \<le> (a div c) * c" using assms(1) by (simp add: mult_right_mono)
  also have "\<dots> \<le> a" using assms(1) by (rule int_div_mult_le)
  finally show False using assms(2) by simp
qed

subsection \<open>The subplot grid\<close>

lemma add_subplot_in_grid:
  assumes "add_subplot nrows ncols num = Inr c"
  shows "in_grid nrows ncols c"
proof -
  from assms have pos: "0 < nrows" "0 < ncols" and rng: "1 \<le> num" "num \<le> nrows * ncols"
    and c: "c = ((num - 1) div ncols, (num - 1) mod ncols)"
    by (auto simp: add_subplot_def split: if_splits)
  have "num - 1 < nrows * ncols" using rng by simp
  then have "(num - 1) div ncols < nrows"
    using pos by (simp add: int_div_less_rows)
  moreover have "0 \<le> (num - 1) div ncols" using pos rng by (simp add: pos_imp_zdiv_nonneg_iff)
  ultimately show ?thesis using pos c by (simp add: in_grid_def)
qed

lemma add_subplot_ok:
  assumes "0 < fig_cols" "0 \<le> i" "i < nrows * fig_cols"
  shows "add_subplot nrows fig_cols (i + 1) = Inr (cell_of fig_cols i)"
proof -
  have "0 < nrows * fig_cols" using assms by linarith
  then have "0 < nrows" using assms(1) by (simp add: zero_less_mult_iff)
  then show ?thesis using assms by (simp add: add_subplot_def cell_of_def)
qed

lemma add_subplot_beyond:
  assumes "nrows * fig_cols \<le> i"
  shows "add_subplot nrows fig_cols (i + 1) = Inl ValueError"
  using assms by (simp add: add_subplot_def)

subsection \<open>Columns and colours\<close>

lemma iloc_ok:
  assumes "0 \<le> i" "i < int (length data)"
  shows "iloc data i = Inr (data ! nat i)"
  using assms by (simp add: iloc_def)

lemma random_choice_nonempty:
  "colors \<noteq> [] \<Longrightarrow> random_choice colors r = Inr (colors ! (r mod length colors))"
  by (simp add: random_choice_def)

lemma random_choice_member:
  assumes "random_choice colors r = Inr col"
  shows "col \<in> set colors"
proof -
  from assms have ne: "colors \<noteq> []" and col: "col = colors ! (r mod length colors)"
    by (auto simp: random_choice_def split: if_splits)
  have "r mod length colors < length colors" using ne by simp
  then show ?thesis unfolding col by (rule nth_mem)
qed

text \<open>The outcome of \<open>hist_plot\<close> depends on the column only.\<close>

lemma hist_plot_args:
  "hist_plot ds_range ax_hist ax ds col cutoff = hist_plot ds_range ax_hist ax' ds col' cutoff"
  by (simp add: hist_plot_def)

text \<open>The calls of \<open>hist_plot\<close> that raise.\<close>

lemma hist_plot_no_range:
  assumes "ds_range (col_values ds) cutoff = Inl e"
  shows "hist_plot ds_range ax_hist ax ds col cutoff = (False, Some e)"
  using assms by (simp add: hist_plot_def)

lemma hist_plot_not_drawn:
  assumes "ds_range (col_values ds) cutoff = Inr xlim" "ax_hist (col_values ds) xlim = Some e"
  shows "hist_plot ds_range ax_hist ax ds col cutoff = (False, Some e)"
  using assms by (simp add: hist_plot_def)

lemma hist_plot_integer_label:
  assumes "ds_range vs cutoff = Inr xlim" "ax_hist vs xlim = None"
  shows "hist_plot ds_range ax_hist ax \<lparr>col_label = IntName n, col_values = vs\<rparr> col cutoff =
         (True, Some AttributeError)"
  using assms by (simp add: hist_plot_def)

text \<open>
  A table whose first column cannot be drawn: \<open>hist_panel\<close> makes the first axes, uses
  the random generator once, draws nothing and ends with the error of \<open>hist_plot\<close>.
\<close>

lemma hist_panel_first_column_fails:
  assumes "colors \<noteq> []" "hist_plot ds_range ax_hist (0, 0) ds (colors ! (d 0 mod length colors))
      cutoff = (False, Some e)"
  shows "hist_panel colors d ds_range ax_hist [ds, ds'] cutoff =
         (\<lparr>axes = [(0, 0)], plots = [], draws = 1\<rparr>, Some e)"
proof -
  have u: "[0..(1::int)] = [0, 1]" by (simp add: upto_rec1)
  have a: "add_subplot 1 2 (0 + 1) = Inr (0, 0)" by (simp add: add_subplot_def)
  have l: "iloc [ds, ds'] 0 = Inr ds" by (simp add: iloc_def)
  show ?thesis
    using assms a l u
    by (simp add: hist_panel_def hist_panel_gen_def floordiv_def Let_def empty_panel_def
        random_choice_nonempty)
qed

subsection \<open>The loop of \<open>hist_panel\<close>\<close>

lemma hist_loop_in_grid:
  assumes "hist_loop colors d ds_range ax_hist data cutoff nrows fig_cols is p = (q, e)"
    and "list_all (in_grid nrows fig_cols) (axes p)"
    and "list_all (in_grid nrows fig_cols) (map fst (plots p))"
  shows "list_all (in_grid nrows fig_cols) (axes q) \<and>
         list_all (in_grid nrows fig_cols) (map fst (plots q))"
  using assms
proof (induction "is" arbitrary: p)
  case Nil
  then show ?case by simp
next
  case (Cons i "is")
  show ?case
  proof (cases "add_subplot nrows fig_cols (i + 1)")
    case (Inl err)
    with Cons.prems show ?thesis by simp
  next
    case (Inr ax_sub)
    then have g: "in_grid nrows fig_cols ax_sub"
      by (rule add_subplot_in_grid)
    let ?p1 = "p\<lparr>axes := axes p @ [ax_sub]\<rparr>"
    have g1: "list_all (in_grid nrows fig_cols) (axes ?p1)"
      "list_all (in_grid nrows fig_cols) (map fst (plots ?p1))"
      using Cons.prems(2,3) g by simp_all
    show ?thesis
    proof (cases "iloc data i")
      case (Inl err)
      with Inr Cons.prems(1) g1 show ?thesis by (auto simp: Let_def)
    next
      case ds: (Inr ds)
      show ?thesis
      proof (cases "random_choice colors (d (draws p))")
        case (Inl err)
        with Inr ds Cons.prems(1) g1 show ?thesis by (auto simp: Let_def)
      next
        case c: (Inr col)
        let ?p2 = "?p1\<lparr>draws := Suc (draws p)\<rparr>"
        let ?res = "hist_plot ds_range ax_hist ax_sub ds col cutoff"
        let ?p3 = "if fst ?res then ?p2\<lparr>plots := plots ?p2 @ [(ax_sub, col)]\<rparr> else ?p2"
        have g3: "list_all (in_grid nrows fig_cols) (axes ?p3)"
          "list_all (in_grid nrows fig_cols) (map fst (plots ?p3))"
          using g1 g by simp_all
        show ?thesis
        proof (cases "snd ?res")
          case None
          with Inr ds c Cons.prems(1)
          have "hist_loop colors d ds_range ax_hist data cutoff nrows fig_cols is ?p3 = (q, e)"
            by (simp add: Let_def)
          from Cons.IH [OF this g3] show ?thesis .
        next
          case (Some err)
          with Inr ds c Cons.prems(1) have "q = ?p3" by (simp add: Let_def)
          with g3 show ?thesis by simp
        qed
      qed
    qed
  qed
qed

lemma hist_loop_all_placed:
  assumes "0 < fig_cols" "colors \<noteq> []"
    and "\<forall>i\<in>set is. 0 \<le> i \<and> i < nrows * fig_cols \<and> i < int (length data)"
    and "\<forall>i\<in>set is. \<forall>ax. \<forall>col\<in>set colors.
           hist_plot ds_range ax_hist ax (data ! nat i) col cutoff = (True, None)"
  shows "hist_loop colors d ds_range ax_hist data cutoff nrows fig_cols is p =
     (p\<lparr>axes := axes p @ map (cell_of fig_cols) is,
        plots := plots p @
          map2 (\<lambda>i k. (cell_of fig_cols i, colors ! (d k mod length colors)))
            is [draws p ..< draws p + length is],
        draws := draws p + length is\<rparr>, None)"
  using assms(3,4)
proof (induction "is" arbitrary: p)
  case Nil
  show ?case by simp
next
  case (Cons i "is")
  let ?col = "colors ! (d (draws p) mod length colors)"
  have a: "add_subplot nrows fig_cols (i + 1) = Inr (cell_of fig_cols i)"
    using Cons.prems(1) assms(1) by (simp add: add_subplot_ok)
  have l: "iloc data i = Inr (data ! nat i)"
    using Cons.prems(1) by (simp add: iloc_ok)
  have r: "random_choice colors (d (draws p)) = Inr ?col"
    using assms(2) by (rule random_choice_nonempty)
  have "?col \<in> set colors" using r by (rule random_choice_member)
  then have h: "hist_plot ds_range ax_hist (cell_of fig_cols i) (data ! nat i) ?col cutoff =
      (True, None)"
    using Cons.prems(2) by (cases "cell_of fig_cols i") simp
  have u: "[draws p ..< draws p + Suc (length is)] =
           draws p # [Suc (draws p) ..< draws p + Suc (length is)]"
    by (rule upt_conv_Cons) simp
  have "\<forall>i\<in>set is. 0 \<le> i \<and> i < nrows * fig_cols \<and> i < int (length data)"
    "\<forall>i\<in>set is. \<forall>ax. \<forall>col\<in>set colors.
           hist_plot ds_range ax_hist ax (data ! nat i) col cutoff = (True, None)"
    using Cons.prems by simp_all
  note IH = Cons.IH [OF this]
  show ?case
    using u by (simp add: a l r h Let_def IH del: upt_Suc)
qed

lemma hist_loop_append:
  "hist_loop colors d ds_range ax_hist data cutoff nrows fig_cols (xs @ ys) p =
     (case hist_loop colors d ds_range ax_hist data cutoff nrows fig_cols xs p of
        (q, None) \<Rightarrow> hist_loop colors d ds_range ax_hist data cutoff nrows fig_cols ys q
      | (q, Some e) \<Rightarrow> (q, Some e))"
  by (induction xs arbitrary: p) (auto simp: Let_def split: sum.splits option.splits)

text \<open>A position outside the grid among those to visit: the loop does not complete.\<close>

lemma hist_loop_refused:
  assumes "\<exists>i\<in>set is. add_subplot nrows fig_cols (i + 1) = Inl ValueError"
  shows "snd (hist_loop colors d ds_range ax_hist data cutoff nrows fig_cols is p) \<noteq> None"
  using assms
  by (induction "is" arbitrary: p) (auto simp: Let_def split: sum.splits option.splits)

text \<open>
  The panel of \<open>hist_panel\<close> when the columns that have a place in the grid can be
  drawn: one histogram for each of the first \<open>rows * fig_cols\<close> columns, and the
  library's refusal of the next position when the table has more columns.
\<close>

lemma hist_panel_gen_run:
  assumes "count = int (length data)" "m = (count div fig_cols) * fig_cols"
    and "0 < fig_cols" "colors \<noteq> []"
    and "\<forall>ds\<in>set (take (nat m) data). \<forall>ax. \<forall>col\<in>set colors.
           hist_plot ds_range ax_hist ax ds col cutoff = (True, None)"
  shows "hist_panel_gen colors d ds_range ax_hist fig_cols data cutoff =
     (\<lparr>axes = map (cell_of fig_cols) [0..m - 1],
       plots = map2 (\<lambda>i k. (cell_of fig_cols i, colors ! (d k mod length colors)))
                 [0..m - 1] [0 ..< nat m],
       draws = nat m\<rparr>,
      if fig_cols dvd count then None else Some ValueError)"
proof -
  have cnt: "0 \<le> count" using assms(1) by simp
  have le: "m \<le> count" unfolding assms(2) using assms(3) by (rule int_div_mult_le)
  have m0: "0 \<le> m" unfolding assms(2) using cnt assms(3) by (simp add: pos_imp_zdiv_nonneg_iff)
  have rng: "\<forall>i\<in>set [0..m - 1]. 0 \<le> i \<and> i < (count div fig_cols) * fig_cols \<and>
      i < int (length data)"
    using le assms(1,2) by auto
  have drw: "\<forall>i\<in>set [0..m - 1]. \<forall>ax. \<forall>col\<in>set colors.
      hist_plot ds_range ax_hist ax (data ! nat i) col cutoff = (True, None)"
  proof
    fix i assume "i \<in> set [0..m - 1]"
    then have i: "0 \<le> i" "i < m" by simp_all
    then have "nat i < length (take (nat m) data)" using le assms(1) by simp
    then have "take (nat m) data ! nat i \<in> set (take (nat m) data)" by (rule nth_mem)
    moreover have "take (nat m) data ! nat i = data ! nat i" using i by simp
    ultimately have "data ! nat i \<in> set (take (nat m) data)" by simp
    then show "\<forall>ax. \<forall>col\<in>set colors.
      hist_plot ds_range ax_hist ax (data ! nat i) col cutoff = (True, None)"
      using assms(5) by blast
  qed
  note first = hist_loop_all_placed [OF assms(3,4) rng drw, of d empty_panel]
  have len: "length [0..m - 1] = nat m" using m0 by simp
  show ?thesis
  proof (cases "fig_cols dvd count")
    case True
    then have "m = count" by (simp add: assms(2))
    then show ?thesis
      using first len assms(3) True
      by (simp add: hist_panel_gen_def floordiv_def empty_panel_def flip: assms(1,2))
  next
    case False
    then have "m \<noteq> count" unfolding assms(2) by (metis dvd_triv_right)
    then have lt: "m < count" using le by simp
    have "[0..count - 1] = [0..m - 1] @ [m..count - 1]"
      using lt m0 by (intro upto_split1) simp_all
    moreover have "[m..count - 1] = m # [m + 1..count - 1]"
      using lt by (intro upto_rec1) simp
    ultimately have split: "[0..count - 1] = [0..m - 1] @ m # [m + 1..count - 1]"
      by simp
    have stop: "add_subplot (count div fig_cols) fig_cols (m + 1) = Inl ValueError"
      by (rule add_subplot_beyond) (simp add: assms(2))
    show ?thesis
      using first len stop assms(3) False
      by (simp add: hist_panel_gen_def floordiv_def split hist_loop_append empty_panel_def
          flip: assms(1))
  qed
qed

text \<open>
  Whatever the columns hold: when \<open>fig_cols\<close> does not divide the number of columns,
  \<open>hist_panel\<close> does not complete.
\<close>

lemma hist_panel_gen_never_completes:
  assumes "0 < fig_cols" "\<not> fig_cols dvd int (length data)"
  shows "snd (hist_panel_gen colors d ds_range ax_hist fig_cols data cutoff) \<noteq> None"
proof -
  let ?count = "int (length data)"
  let ?m = "(?count div fig_cols) * fig_cols"
  have "?m \<le> ?count" using assms(1) by (rule int_div_mult_le)
  moreover have "?m \<noteq> ?count" using assms(2) by (metis dvd_triv_right)
  ultimately have lt: "?m < ?count" by simp
  have m0: "0 \<le> ?m" using assms(1) by (simp add: pos_imp_zdiv_nonneg_iff)
  have "?m \<in> set [0..?count - 1]" using lt m0 by simp
  moreover have "add_subplot (?count div fig_cols) fig_cols (?m + 1) = Inl ValueError"
    by (rule add_subplot_beyond) simp
  ultimately have "\<exists>i\<in>set [0..?count - 1].
      add_subplot (?count div fig_cols) fig_cols (i + 1) = Inl ValueError"
    by blast
  then have "snd (hist_loop colors d ds_range ax_hist data cutoff (?count div fig_cols)
      fig_cols [0..?count - 1] empty_panel) \<noteq> None"
    by (rule hist_loop_refused)
  then show ?thesis
    using assms(1) by (simp add: hist_panel_gen_def floordiv_def Let_def)
qed

text \<open>
  C1. For a table of \<open>count \<ge> 0\<close> columns and \<open>fig_cols \<ge> 1\<close> plots in a row, the
  histogram panel computes its row count by floor division, so that
  \<open>rows * fig_cols \<le> count\<close>, and every cell that receives an axes or a histogram has a
  row index below \<open>rows\<close>, whatever the columns hold and however the run ends.
\<close>

theorem hist_panel_truncating_rows:
  assumes "count = int (length data)" "0 \<le> count" "1 \<le> fig_cols"
  shows "floordiv count fig_cols = Inr (count div fig_cols) \<and>
         (count div fig_cols) * fig_cols \<le> count \<and>
         (\<forall>c \<in> set (axes (fst (hist_panel_gen colors d ds_range ax_hist fig_cols data cutoff))).
            0 \<le> fst c \<and> fst c < count div fig_cols) \<and>
         (\<forall>c \<in> fst ` set (plots (fst (hist_panel_gen colors d ds_range ax_hist fig_cols data
                                      cutoff))).
            0 \<le> fst c \<and> fst c < count div fig_cols)"
proof -
  have pos: "0 < fig_cols" using assms(3) by simp
  obtain q e where run:
    "hist_loop colors d ds_range ax_hist data cutoff (count div fig_cols) fig_cols
       [0..count - 1] empty_panel = (q, e)"
    by (cases "hist_loop colors d ds_range ax_hist data cutoff (count div fig_cols) fig_cols
       [0..count - 1] empty_panel")
  have "list_all (in_grid (count div fig_cols) fig_cols) (axes q) \<and>
        list_all (in_grid (count div fig_cols) fig_cols) (map fst (plots q))"
    using run by (rule hist_loop_in_grid) (simp_all add: empty_panel_def)
  moreover have "fst (hist_panel_gen colors d ds_range ax_hist fig_cols data cutoff) = q"
    using pos run by (simp add: hist_panel_gen_def floordiv_def flip: assms(1))
  moreover have "floordiv count fig_cols = Inr (count div fig_cols)"
    using pos by (simp add: floordiv_def)
  moreover have "(count div fig_cols) * fig_cols \<le> count"
    using pos by (rule int_div_mult_le)
  ultimately show ?thesis
    by (auto simp: list_all_iff in_grid_def)
qed

theorem hist_panel_truncating_rows_witness:
  "(10::int) = int (length (replicate 10 \<lparr>col_label = StrName ''price'', col_values = [1::nat, 2]\<rparr>)) \<and>
   (0::int) \<le> 10 \<and> (1::int) \<le> 2 \<and> floordiv 10 2 = Inr 5 \<and> (5::int) * 2 \<le> 10 \<and>
   list_all (\<lambda>c. 0 \<le> fst c \<and> fst c < 5)
     (axes (fst (hist_panel_gen [()] id (\<lambda>vs c. Inr ()) (\<lambda>vs x. None) 2
        (replicate 10 \<lparr>col_label = StrName ''price'', col_values = [1::nat, 2]\<rparr>) False))) \<and>
   axes (fst (hist_panel_gen [()] id (\<lambda>vs c. Inr ()) (\<lambda>vs x. None) 2
        (replicate 10 \<lparr>col_label = StrName ''price'', col_values = [1::nat, 2]\<rparr>) False)) =
     [(0, 0), (0, 1), (1, 0), (1, 1), (2, 0), (2, 1), (3, 0), (3, 1), (4, 0), (4, 1)]"
proof -
  let ?data = "replicate 10 \<lparr>col_label = StrName ''price'', col_values = [1::nat, 2]\<rparr>"
  have h: "(10::int) = int (length ?data)" "(0::int) \<le> 10" "(1::int) \<le> 2" by simp_all
  have e: "axes (fst (hist_panel_gen [()] id (\<lambda>vs c. Inr ()) (\<lambda>vs x. None) 2 ?data False)) =
     [(0, 0), (0, 1), (1, 0), (1, 1), (2, 0), (2, 1), (3, 0), (3, 1), (4, 0), (4, 1)]"
    by code_simp
  show ?thesis
    using hist_panel_truncating_rows [OF h, of "[()]" id "\<lambda>vs c. Inr ()" "\<lambda>vs x. None" False] e
    by (simp add: list_all_iff)
qed

subsection \<open>The loop of \<open>box_plot\<close>\<close>

lemma axes_index_ok:
  assumes "0 < fig_cols" "0 \<le> i" "i < nr * fig_cols"
  shows "axes_index (Grid nr fig_cols) (cell_of fig_cols i) = Inr (cell_of fig_cols i)"
proof -
  have "i div fig_cols < nr" using assms(1,3) by (rule int_div_less_rows)
  moreover have "0 \<le> i div fig_cols" using assms(1,2) by (simp add: pos_imp_zdiv_nonneg_iff)
  moreover have "0 \<le> nr" using calculation by linarith
  moreover have "0 \<le> i mod fig_cols" "i mod fig_cols < fig_cols" using assms(1) by simp_all
  ultimately show ?thesis
    by (simp add: axes_index_def cell_of_def)
qed

lemma axes_index_beyond:
  assumes "0 < fig_cols" "0 \<le> nr" "nr * fig_cols \<le> i"
  shows "axes_index (Grid nr fig_cols) (cell_of fig_cols i) = Inl IndexError"
proof -
  have "\<not> i div fig_cols < nr"
  proof
    assume "i div fig_cols < nr"
    then have "i div fig_cols + 1 \<le> nr" by simp
    then have "(i div fig_cols + 1) * fig_cols \<le> nr * fig_cols"
      using assms(1) by (simp add: mult_right_mono)
    moreover have "i < (i div fig_cols + 1) * fig_cols"
    proof -
      have "(i div fig_cols) * fig_cols + i mod fig_cols = i" by simp
      moreover have "i mod fig_cols < fig_cols" using assms(1) by simp
      moreover have "(i div fig_cols + 1) * fig_cols = (i div fig_cols) * fig_cols + fig_cols"
        by (simp add: distrib_right)
      ultimately show ?thesis by linarith
    qed
    ultimately show False using assms(3) by linarith
  qed
  then show ?thesis by (simp add: axes_index_def cell_of_def)
qed

lemma box_loop_all_placed:
  assumes "0 < fig_cols" "colors \<noteq> []"
    and "\<forall>x\<in>set ps. 0 \<le> fst x \<and> fst x < nr * fig_cols \<and> sns_boxplot (snd x) = None"
  shows "box_loop colors d sns_boxplot (Grid nr fig_cols) fig_cols ps p =
     (p\<lparr>plots := plots p @
          map2 (\<lambda>i k. (cell_of fig_cols i, colors ! (d k mod length colors)))
            (map fst ps) [draws p ..< draws p + length ps],
        draws := draws p + length ps\<rparr>, None)"
  using assms(3)
proof (induction ps arbitrary: p)
  case Nil
  show ?case by simp
next
  case (Cons x ps)
  obtain i subdata where x: "x = (i, subdata)" by (cases x)
  have a: "axes_index (Grid nr fig_cols) (cell_of fig_cols i) = Inr (cell_of fig_cols i)"
    using Cons.prems assms(1) x by (simp add: axes_index_ok)
  have r: "random_choice colors (d (draws p)) = Inr (colors ! (d (draws p) mod length colors))"
    using assms(2) by (rule random_choice_nonempty)
  have b: "sns_boxplot subdata = None" using Cons.prems x by simp
  have u: "[draws p ..< draws p + Suc (length ps)] =
           draws p # [Suc (draws p) ..< draws p + Suc (length ps)]"
    by (rule upt_conv_Cons) simp
  have "\<forall>x\<in>set ps. 0 \<le> fst x \<and> fst x < nr * fig_cols \<and> sns_boxplot (snd x) = None"
    using Cons.prems by simp
  note IH = Cons.IH [OF this]
  show ?case
    using u by (simp add: x a r b IH Let_def del: upt_Suc)
qed

lemma box_loop_append:
  "box_loop colors d sns_boxplot arr fig_cols (xs @ ys) p =
     (case box_loop colors d sns_boxplot arr fig_cols xs p of
        (q, None) \<Rightarrow> box_loop colors d sns_boxplot arr fig_cols ys q
      | (q, Some e) \<Rightarrow> (q, Some e))"
  by (induction xs arbitrary: p) (auto simp: Let_def split: sum.splits option.splits)

text \<open>A column whose cell the array of axes does not have: the loop does not complete.\<close>

lemma box_loop_refused:
  assumes "\<exists>x\<in>set ps. \<exists>e. axes_index arr (cell_of fig_cols (fst x)) = Inl e"
  shows "snd (box_loop colors d sns_boxplot arr fig_cols ps p) \<noteq> None"
  using assms
proof (induction ps arbitrary: p)
  case Nil
  then show ?case by simp
next
  case (Cons x ps)
  obtain i subdata where x: "x = (i, subdata)" by (cases x)
  show ?case
  proof (cases "axes_index arr (cell_of fig_cols i)")
    case (Inl e)
    then show ?thesis by (simp add: x)
  next
    case (Inr ax)
    then have "\<exists>x\<in>set ps. \<exists>e. axes_index arr (cell_of fig_cols (fst x)) = Inl e"
      using Cons.prems x by auto
    note IH = Cons.IH [OF this]
    show ?thesis
      using Inr IH by (simp add: x Let_def split: sum.splits option.splits)
  qed
qed

lemma box_loop_plots_bound:
  "length (plots (fst (box_loop colors d sns_boxplot arr fig_cols ps p))) \<le>
   length (plots p) + length ps"
proof (induction ps arbitrary: p)
  case Nil
  show ?case by simp
next
  case (Cons x ps)
  obtain i subdata where x: "x = (i, subdata)" by (cases x)
  show ?case
  proof (cases "axes_index arr (cell_of fig_cols i)")
    case (Inl e)
    then show ?thesis by (simp add: x)
  next
    case ax: (Inr ax)
    show ?thesis
    proof (cases "random_choice colors (d (draws p))")
      case (Inl e)
      then show ?thesis using ax by (simp add: x)
    next
      case col: (Inr col)
      show ?thesis
      proof (cases "sns_boxplot subdata")
        case None
        let ?q = "p\<lparr>draws := Suc (draws p), plots := plots p @ [(ax, col)]\<rparr>"
        have "length (plots (fst (box_loop colors d sns_boxplot arr fig_cols ps ?q))) \<le>
              length (plots ?q) + length ps"
          by (rule Cons.IH)
        then show ?thesis using ax col None by (simp add: x Let_def)
      next
        case (Some e)
        then show ?thesis using ax col by (simp add: x Let_def)
      qed
    qed
  qed
qed

lemma enumerate_columns_split:
  assumes "0 \<le> m" "m \<le> int (length data)"
  shows "enumerate_columns data =
         zip [0..m - 1] (take (nat m) data) @
         zip [m..int (length data) - 1] (drop (nat m) data)"
proof -
  have "[0..int (length data) - 1] = [0..m - 1] @ [m..int (length data) - 1]"
  proof (cases "m = int (length data)")
    case True
    then show ?thesis by simp
  next
    case False
    then show ?thesis using assms by (intro upto_split1) simp_all
  qed
  moreover have "length [0..m - 1] = nat m" using assms(1) by simp
  ultimately show ?thesis
    by (simp add: enumerate_columns_def zip_append1)
qed

text \<open>
  The panel of \<open>box_plot\<close> on a grid of at least two rows and two columns, when the
  columns that have a place in the grid can be drawn.
\<close>

lemma box_plot_gen_run:
  assumes "n_cols = int (length data)" "m = (n_cols div fig_cols) * fig_cols"
    and "2 \<le> fig_cols" "2 * fig_cols \<le> n_cols" "colors \<noteq> []"
    and "\<forall>ds\<in>set (take (nat m) data). sns_boxplot ds = None"
  shows "box_plot_gen colors d sns_boxplot fig_cols data =
     (\<lparr>axes = List.product [0..n_cols div fig_cols - 1] [0..fig_cols - 1],
       plots = map2 (\<lambda>i k. (cell_of fig_cols i, colors ! (d k mod length colors)))
                 [0..m - 1] [0 ..< nat m],
       draws = nat m\<rparr>,
      if fig_cols dvd n_cols then None else Some IndexError)"
proof -
  have pos: "0 < fig_cols" using assms(3) by simp
  have le: "m \<le> n_cols" unfolding assms(2) using pos by (rule int_div_mult_le)
  have r2: "2 \<le> n_cols div fig_cols"
    using zdiv_mono1 [OF assms(4) pos] pos by simp
  have m0: "0 \<le> m" unfolding assms(2) using pos r2 by simp
  have arr: "subplots (n_cols div fig_cols) fig_cols = Inr (Grid (n_cols div fig_cols) fig_cols)"
    using r2 assms(3) by (simp add: subplots_def)
  have len: "length [0..m - 1] = nat m" using m0 by simp
  have lent: "length (take (nat m) data) = nat m" using le assms(1) by simp
  let ?ps = "zip [0..m - 1] (take (nat m) data)"
  have ok: "\<forall>x\<in>set ?ps. 0 \<le> fst x \<and> fst x < (n_cols div fig_cols) * fig_cols \<and>
      sns_boxplot (snd x) = None"
  proof
    fix x assume x: "x \<in> set ?ps"
    obtain i ds where xi: "x = (i, ds)" by (cases x)
    have "i \<in> set [0..m - 1]" using x unfolding xi by (rule set_zip_leftD)
    moreover have "ds \<in> set (take (nat m) data)" using x unfolding xi by (rule set_zip_rightD)
    ultimately have "fst x \<in> set [0..m - 1]" "snd x \<in> set (take (nat m) data)"
      by (simp_all add: xi)
    then show "0 \<le> fst x \<and> fst x < (n_cols div fig_cols) * fig_cols \<and>
      sns_boxplot (snd x) = None"
      using assms(2,6) by simp
  qed
  have fsts: "map fst ?ps = [0..m - 1]" using len lent by simp
  have lps: "length ?ps = nat m" using len lent by simp
  have mn: "min (length data) (nat m) = nat m" using le assms(1) by simp
  note first = box_loop_all_placed [OF pos assms(5) ok, of d]
  have split: "enumerate_columns data = ?ps @ zip [m..n_cols - 1] (drop (nat m) data)"
    using enumerate_columns_split [OF m0, of data] le assms(1) by simp
  let ?p0 = "empty_panel\<lparr>axes := List.product [0..n_cols div fig_cols - 1] [0..fig_cols - 1]\<rparr>"
  have run: "box_plot_gen colors d sns_boxplot fig_cols data =
      box_loop colors d sns_boxplot (Grid (n_cols div fig_cols) fig_cols) fig_cols
        (?ps @ zip [m..n_cols - 1] (drop (nat m) data)) ?p0"
    using pos arr by (simp add: box_plot_gen_def floordiv_def split Let_def flip: assms(1))
  show ?thesis
  proof (cases "fig_cols dvd n_cols")
    case True
    then have "m = n_cols" by (simp add: assms(2))
    then have z: "zip [m..n_cols - 1] (drop (nat m) data) = []" by simp
    show ?thesis
      unfolding run z append_Nil2
      using True by (simp add: first fsts lps mn empty_panel_def)
  next
    case False
    then have "m \<noteq> n_cols" unfolding assms(2) by (metis dvd_triv_right)
    then have lt: "m < n_cols" using le by simp
    have u: "[m..n_cols - 1] = m # [m + 1..n_cols - 1]"
      using lt by (intro upto_rec1) simp
    have "nat m < length data" using lt m0 assms(1) by simp
    then have dr: "drop (nat m) data = data ! nat m # drop (Suc (nat m)) data"
      by (rule Cons_nth_drop_Suc [symmetric])
    have stop: "axes_index (Grid (n_cols div fig_cols) fig_cols) (cell_of fig_cols m) =
        Inl IndexError"
      using pos r2 by (intro axes_index_beyond) (simp_all add: assms(2))
    have rest: "zip [m..n_cols - 1] (drop (nat m) data) =
        (m, data ! nat m) # zip [m + 1..n_cols - 1] (drop (Suc (nat m)) data)"
      by (subst u, subst dr) simp
    show ?thesis
      unfolding run rest box_loop_append
      using False by (simp add: first fsts lps mn stop empty_panel_def)
  qed
qed

text \<open>
  A grid of one row: the axes come as a one-dimensional array, which the pair of
  indices of the first column already fails on.
\<close>

lemma box_plot_gen_one_row:
  assumes "n_cols = int (length data)" "2 \<le> fig_cols" "n_cols div fig_cols = 1"
  shows "box_plot_gen colors d sns_boxplot fig_cols data =
     (\<lparr>axes = List.product [0..0] [0..fig_cols - 1], plots = [], draws = 0\<rparr>,
      Some IndexError)"
proof -
  have pos: "0 < fig_cols" using assms(2) by simp
  have "n_cols \<noteq> 0" using assms(3) by auto
  then have "data \<noteq> []" using assms(1) by auto
  then obtain ds rest where data: "data = ds # rest" by (cases data) auto
  have u: "[0..int (length rest)] = 0 # [1..int (length rest)]"
    by (subst upto_rec1) simp_all
  have en: "enumerate_columns data = (0, ds) # zip [1..int (length rest)] rest"
    by (simp add: enumerate_columns_def data u)
  have arr: "subplots 1 fig_cols = Inr (Row fig_cols)"
    using assms(2) by (simp add: subplots_def)
  show ?thesis
    using pos arr assms(3)
    by (simp add: box_plot_gen_def floordiv_def Let_def en axes_index_def empty_panel_def
        flip: assms(1))
qed

text \<open>
  Whatever the columns hold: when \<open>fig_cols\<close> does not divide the number of columns,
  \<open>box_plot\<close> does not complete.
\<close>

lemma box_plot_gen_never_completes:
  assumes "0 < fig_cols" "\<not> fig_cols dvd int (length data)"
  shows "snd (box_plot_gen colors d sns_boxplot fig_cols data) \<noteq> None"
proof -
  let ?n = "int (length data)"
  let ?rows = "?n div fig_cols"
  let ?m = "?rows * fig_cols"
  have le: "?m \<le> ?n" using assms(1) by (rule int_div_mult_le)
  moreover have "?m \<noteq> ?n" using assms(2) by (metis dvd_triv_right)
  ultimately have lt: "?m < ?n" by simp
  have r0: "0 \<le> ?rows" using assms(1) by (simp add: pos_imp_zdiv_nonneg_iff)
  then have m0: "0 \<le> ?m" using assms(1) by simp
  have nm: "nat ?m < length data" using lt m0 by simp
  have mem: "(?m, data ! nat ?m) \<in> set (enumerate_columns data)"
  proof -
    have "nat ?m < length [0..?n - 1]" using lt m0 by simp
    moreover have "[0..?n - 1] ! nat ?m = ?m" using lt m0 by simp
    ultimately have "(?m, data ! nat ?m) \<in> set (zip [0..?n - 1] data)"
      using nm unfolding in_set_zip by (intro exI [of _ "nat ?m"]) simp
    then show ?thesis by (simp add: enumerate_columns_def)
  qed
  show ?thesis
  proof (cases "subplots ?rows fig_cols")
    case (Inl e)
    then show ?thesis using assms(1) by (simp add: box_plot_gen_def floordiv_def Let_def)
  next
    case (Inr arr)
    have "\<exists>e. axes_index arr (cell_of fig_cols ?m) = Inl e"
    proof (cases arr)
      case Single
      then show ?thesis by (simp add: axes_index_def)
    next
      case (Row n)
      then show ?thesis by (simp add: axes_index_def)
    next
      case (Grid nr nc)
      then have "nr = ?rows" "nc = fig_cols"
        using Inr by (auto simp: subplots_def split: if_splits)
      then show ?thesis
        using axes_index_beyond [OF assms(1) r0, of ?m] Grid by simp
    qed
    then have "\<exists>x\<in>set (enumerate_columns data).
        \<exists>e. axes_index arr (cell_of fig_cols (fst x)) = Inl e"
      using mem by force
    then have "snd (box_loop colors d sns_boxplot arr fig_cols (enumerate_columns data)
        (empty_panel\<lparr>axes := List.product [0..?rows - 1] [0..fig_cols - 1]\<rparr>)) \<noteq> None"
      by (rule box_loop_refused)
    then show ?thesis
      using assms(1) Inr by (simp add: box_plot_gen_def floordiv_def Let_def)
  qed
qed

subsection \<open>Cells by index\<close>

lemma nth_map2_upto:
  assumes "0 \<le> i" "i < m"
  shows "map2 f [0..m - 1] [0 ..< nat m] ! nat i = f i (nat i)"
proof -
  have "nat i < length [0..m - 1]" "nat i < length [0 ..< nat m]" using assms by simp_all
  moreover have "[0..m - 1] ! nat i = i" using assms by simp
  moreover have "[0 ..< nat m] ! nat i = nat i" using assms by simp
  ultimately show ?thesis by simp
qed

lemma nth_map_upto:
  assumes "0 \<le> i" "i < m"
  shows "map f [0..m - 1] ! nat i = f i"
  using assms by simp

lemma map_fst_map2:
  assumes "length xs = length ys"
  shows "map fst (map2 (\<lambda>i k. (f i, g k)) xs ys) = map f xs"
  using assms by (induction xs ys rule: list_induct2) simp_all

lemma cell_of_row_mono:
  assumes "0 < fig_cols" "i \<le> j"
  shows "fst (cell_of fig_cols i) \<le> fst (cell_of fig_cols j)"
  using assms by (simp add: cell_of_def zdiv_mono1)

lemma cell_of_row_step:
  assumes "0 < fig_cols"
  shows "fst (cell_of fig_cols (i + 1)) =
         fst (cell_of fig_cols i) + (if fig_cols dvd i + 1 then 1 else 0)"
proof (cases "fig_cols dvd i + 1")
  case True
  then obtain k where k: "i + 1 = fig_cols * k" by (auto simp: dvd_def)
  then have i: "i = fig_cols * (k - 1) + (fig_cols - 1)" by (simp add: algebra_simps)
  have "(i + 1) div fig_cols = k" using k assms by simp
  moreover have "i div fig_cols = k - 1"
    using assms by (subst i) simp
  ultimately show ?thesis using True by (simp add: cell_of_def)
next
  case False
  have "(i + 1) mod fig_cols \<noteq> 0" using False by (simp add: dvd_eq_mod_eq_0)
  moreover have "0 \<le> (i + 1) mod fig_cols" using assms by simp
  ultimately have "1 \<le> (i + 1) mod fig_cols" by linarith
  have e: "i = ((i + 1) div fig_cols) * fig_cols + ((i + 1) mod fig_cols - 1)"
    by (simp add: algebra_simps)
  have "(i + 1) mod fig_cols - 1 < fig_cols"
    using assms pos_mod_bound [of fig_cols "i + 1"] by linarith
  then have "i div fig_cols = (i + 1) div fig_cols"
    using \<open>1 \<le> (i + 1) mod fig_cols\<close> assms
    by (subst e) simp
  then show ?thesis using False by (simp add: cell_of_def)
qed

text \<open>
  C2. For every index \<open>i\<close> in \<open>[0, count)\<close> the cell of the \<open>i\<close>-th plot is
  \<open>(i div fig_cols, i mod fig_cols)\<close>: it is the pair \<open>box_plot\<close> indexes the axes with (and
  the cell a two-dimensional array of enough rows returns for it) and the cell the
  plotting library gives to position \<open>i + 1\<close> of \<open>hist_panel\<close>. It is the cell found at
  place \<open>i\<close> of either panel after the run, for every index inside the grid, when the
  columns of the grid can be drawn (\<open>box_plot\<close> needs a grid of at least two rows and
  two columns for that; on a grid of one row it fails at the first column). The row
  count is \<open>count div fig_cols\<close>. The row is non-decreasing in the index and grows, by
  one, exactly when the index reaches a multiple of \<open>fig_cols\<close>. At \<open>count = 10\<close> and
  \<open>fig_cols = 2\<close> there are 5 rows and index 7 has the cell \<open>(3, 1)\<close>.
\<close>

theorem cell_of_index:
  assumes "count = int (length data)" "1 \<le> fig_cols" "0 \<le> i" "i < count" "colors \<noteq> []"
  shows "floordiv count fig_cols = Inr (count div fig_cols) \<and>
         cell_of fig_cols i = (i div fig_cols, i mod fig_cols) \<and>
         (i < nrows * fig_cols \<longrightarrow>
            add_subplot nrows fig_cols (i + 1) = Inr (cell_of fig_cols i) \<and>
            axes_index (Grid nrows fig_cols) (cell_of fig_cols i) = Inr (cell_of fig_cols i)) \<and>
         (i < (count div fig_cols) * fig_cols \<and>
          (\<forall>ds\<in>set (take (nat ((count div fig_cols) * fig_cols)) data).
             \<forall>ax. \<forall>col\<in>set colors.
               hist_plot ds_range ax_hist ax ds col cutoff = (True, None)) \<longrightarrow>
            axes (fst (hist_panel_gen colors d ds_range ax_hist fig_cols data cutoff)) ! nat i =
              cell_of fig_cols i \<and>
            fst (plots (fst (hist_panel_gen colors d ds_range ax_hist fig_cols data cutoff))
                   ! nat i) = cell_of fig_cols i) \<and>
         (i < (count div fig_cols) * fig_cols \<and> 2 \<le> fig_cols \<and> 2 * fig_cols \<le> count \<and>
          (\<forall>ds\<in>set (take (nat ((count div fig_cols) * fig_cols)) data).
             sns_boxplot ds = None) \<longrightarrow>
            fst (plots (fst (box_plot_gen colors d sns_boxplot fig_cols data)) ! nat i) =
              cell_of fig_cols i) \<and>
         (2 \<le> fig_cols \<and> count div fig_cols = 1 \<longrightarrow>
            plots (fst (box_plot_gen colors d sns_boxplot fig_cols data)) = [] \<and>
            snd (box_plot_gen colors d sns_boxplot fig_cols data) = Some IndexError) \<and>
         (\<forall>j. i \<le> j \<longrightarrow> fst (cell_of fig_cols i) \<le> fst (cell_of fig_cols j)) \<and>
         fst (cell_of fig_cols (i + 1)) =
           fst (cell_of fig_cols i) + (if fig_cols dvd i + 1 then 1 else 0)"
proof -
  have pos: "0 < fig_cols" using assms(2) by simp
  let ?m = "(count div fig_cols) * fig_cols"
  have rows: "floordiv count fig_cols = Inr (count div fig_cols)"
    using pos by (simp add: floordiv_def)
  have cell: "cell_of fig_cols i = (i div fig_cols, i mod fig_cols)"
    by (simp add: cell_of_def)
  have req: "i < nrows * fig_cols \<longrightarrow>
      add_subplot nrows fig_cols (i + 1) = Inr (cell_of fig_cols i) \<and>
      axes_index (Grid nrows fig_cols) (cell_of fig_cols i) = Inr (cell_of fig_cols i)"
    using pos assms(3) by (simp add: add_subplot_ok axes_index_ok)
  have hist: "i < ?m \<and>
      (\<forall>ds\<in>set (take (nat ?m) data). \<forall>ax. \<forall>col\<in>set colors.
         hist_plot ds_range ax_hist ax ds col cutoff = (True, None)) \<longrightarrow>
      axes (fst (hist_panel_gen colors d ds_range ax_hist fig_cols data cutoff)) ! nat i =
        cell_of fig_cols i \<and>
      fst (plots (fst (hist_panel_gen colors d ds_range ax_hist fig_cols data cutoff)) ! nat i) =
        cell_of fig_cols i"
  proof
    assume a: "i < ?m \<and>
      (\<forall>ds\<in>set (take (nat ?m) data). \<forall>ax. \<forall>col\<in>set colors.
         hist_plot ds_range ax_hist ax ds col cutoff = (True, None))"
    then have lt: "i < ?m" by simp
    from a have drw: "\<forall>ds\<in>set (take (nat ?m) data). \<forall>ax. \<forall>col\<in>set colors.
         hist_plot ds_range ax_hist ax ds col cutoff = (True, None)" by simp
    show "axes (fst (hist_panel_gen colors d ds_range ax_hist fig_cols data cutoff)) ! nat i =
        cell_of fig_cols i \<and>
      fst (plots (fst (hist_panel_gen colors d ds_range ax_hist fig_cols data cutoff)) ! nat i) =
        cell_of fig_cols i"
      by (simp add: hist_panel_gen_run [OF assms(1) refl pos assms(5) drw]
          nth_map_upto [OF assms(3) lt] nth_map2_upto [OF assms(3) lt])
  qed
  have box: "i < ?m \<and> 2 \<le> fig_cols \<and> 2 * fig_cols \<le> count \<and>
      (\<forall>ds\<in>set (take (nat ?m) data). sns_boxplot ds = None) \<longrightarrow>
      fst (plots (fst (box_plot_gen colors d sns_boxplot fig_cols data)) ! nat i) =
        cell_of fig_cols i"
  proof
    assume a: "i < ?m \<and> 2 \<le> fig_cols \<and> 2 * fig_cols \<le> count \<and>
      (\<forall>ds\<in>set (take (nat ?m) data). sns_boxplot ds = None)"
    then have lt: "i < ?m" and c2: "2 \<le> fig_cols" and n2: "2 * fig_cols \<le> count"
      and drw: "\<forall>ds\<in>set (take (nat ?m) data). sns_boxplot ds = None"
      by simp_all
    show "fst (plots (fst (box_plot_gen colors d sns_boxplot fig_cols data)) ! nat i) =
        cell_of fig_cols i"
      by (simp add: box_plot_gen_run [OF assms(1) refl c2 n2 assms(5) drw]
          nth_map2_upto [OF assms(3) lt])
  qed
  have one: "2 \<le> fig_cols \<and> count div fig_cols = 1 \<longrightarrow>
      plots (fst (box_plot_gen colors d sns_boxplot fig_cols data)) = [] \<and>
      snd (box_plot_gen colors d sns_boxplot fig_cols data) = Some IndexError"
    using box_plot_gen_one_row [OF assms(1), of fig_cols colors d sns_boxplot] by simp
  have mono: "\<forall>j. i \<le> j \<longrightarrow> fst (cell_of fig_cols i) \<le> fst (cell_of fig_cols j)"
    using pos by (simp add: cell_of_row_mono)
  have step: "fst (cell_of fig_cols (i + 1)) =
      fst (cell_of fig_cols i) + (if fig_cols dvd i + 1 then 1 else 0)"
    using pos by (rule cell_of_row_step)
  from rows cell req hist box one mono step show ?thesis by blast
qed

theorem cell_of_index_witness:
  "(10::int) = int (length (replicate 10 \<lparr>col_label = StrName ''price'', col_values = [1::nat, 2]\<rparr>)) \<and>
   (1::int) \<le> 2 \<and> (0::int) \<le> 7 \<and> (7::int) < 10 \<and> [()] \<noteq> [] \<and>
   floordiv 10 2 = Inr 5 \<and> cell_of 2 7 = (3, 1) \<and>
   add_subplot 5 2 (7 + 1) = Inr (3, 1) \<and>
   axes_index (Grid 5 2) (cell_of 2 7) = Inr (3, 1) \<and>
   axes (fst (hist_panel_gen [()] id (\<lambda>vs c. Inr ()) (\<lambda>vs x. None) 2
      (replicate 10 \<lparr>col_label = StrName ''price'', col_values = [1::nat, 2]\<rparr>) False)) ! 7 =
     (3, 1) \<and>
   fst (plots (fst (box_plot_gen [()] id (\<lambda>ds. None) 2
      (replicate 10 \<lparr>col_label = StrName ''price'', col_values = [1::nat, 2]\<rparr>))) ! 7) =
     (3, 1) \<and>
   fst (cell_of 2 7) \<le> fst (cell_of 2 9) \<and>
   fst (cell_of 2 (7 + 1)) = fst (cell_of 2 7) + 1"
proof -
  let ?data = "replicate 10 \<lparr>col_label = StrName ''price'', col_values = [1::nat, 2]\<rparr>"
  have h: "(10::int) = int (length ?data)" "(1::int) \<le> 2" "(0::int) \<le> 7" "(7::int) < 10"
    "[()] \<noteq> []" by simp_all
  have c: "cell_of 2 7 = (3, 1)" by (simp add: cell_of_def)
  have n: "nat 7 = 7" by simp
  have dh: "\<forall>ds\<in>set (take (nat ((10 div 2) * 2)) ?data). \<forall>ax. \<forall>col\<in>set [()].
      hist_plot (\<lambda>vs c. Inr ()) (\<lambda>vs x. None) ax ds col False = (True, None)"
    by (simp add: hist_plot_def)
  have db: "\<forall>ds\<in>set (take (nat ((10 div 2) * 2)) ?data). (\<lambda>ds. None) ds = None"
    by simp
  have t: "(7::int) < (10 div 2) * 2" "(2::int) \<le> 2" "2 * (2::int) \<le> 10" by simp_all
  note th = cell_of_index [OF h, where d = id and nrows = 5 and ds_range = "\<lambda>vs c. Inr ()"
      and ax_hist = "\<lambda>vs x. None" and cutoff = False and sns_boxplot = "\<lambda>ds. None"]
  from th have 1: "floordiv 10 2 = Inr (10 div 2)" by blast
  from th have 2: "(7::int) < 5 * 2 \<longrightarrow>
      add_subplot 5 2 (7 + 1) = Inr (cell_of 2 7) \<and>
      axes_index (Grid 5 2) (cell_of 2 7) = Inr (cell_of 2 7)" by blast
  from th dh t have 3: "axes (fst (hist_panel_gen [()] id (\<lambda>vs c. Inr ()) (\<lambda>vs x. None) 2
      ?data False)) ! nat 7 = cell_of 2 7" by blast
  from th db t have 4: "fst (plots (fst (box_plot_gen [()] id (\<lambda>ds. None) 2 ?data)) ! nat 7) =
      cell_of 2 7" by blast
  from th have 5: "\<forall>j. (7::int) \<le> j \<longrightarrow> fst (cell_of 2 7) \<le> fst (cell_of 2 j)" by blast
  from th have 6: "fst (cell_of 2 (7 + 1)) = fst (cell_of 2 7) + (if (2::int) dvd 7 + 1 then 1 else 0)"
    by blast
  show ?thesis
    using 1 2 3 4 5 6 c n by simp
qed

text \<open>
  C3. When \<open>fig_cols\<close> does not divide \<open>count\<close>, the trailing column of the table (index
  \<open>count - 1\<close>) gets no cell of the grid of \<open>count div fig_cols\<close> rows: its cell lies
  below the last row, the library refuses the position, and whatever the columns hold,
  neither an axes nor a histogram is ever at that cell. The column is not passed over
  in silence: the call never completes, and when the columns of the grid can be drawn
  it draws exactly those and ends with the library's ValueError. At \<open>count = 11\<close> and
  two columns there are 5 rows and index 10 has no cell: the panel holds the cells of
  the indices 0 to 9 only.
\<close>

theorem hist_panel_trailing_variable_dropped:
  assumes "count = int (length data)" "1 \<le> fig_cols" "\<not> fig_cols dvd count" "colors \<noteq> []"
  shows "floordiv count fig_cols = Inr (count div fig_cols) \<and>
         \<not> in_grid (count div fig_cols) fig_cols (cell_of fig_cols (count - 1)) \<and>
         add_subplot (count div fig_cols) fig_cols ((count - 1) + 1) = Inl ValueError \<and>
         cell_of fig_cols (count - 1) \<notin>
           set (axes (fst (hist_panel_gen colors d ds_range ax_hist fig_cols data cutoff))) \<and>
         cell_of fig_cols (count - 1) \<notin>
           fst ` set (plots (fst (hist_panel_gen colors d ds_range ax_hist fig_cols data
                                    cutoff))) \<and>
         snd (hist_panel_gen colors d ds_range ax_hist fig_cols data cutoff) \<noteq> None \<and>
         ((\<forall>ds\<in>set (take (nat ((count div fig_cols) * fig_cols)) data).
             \<forall>ax. \<forall>col\<in>set colors.
               hist_plot ds_range ax_hist ax ds col cutoff = (True, None)) \<longrightarrow>
            map fst (plots (fst (hist_panel_gen colors d ds_range ax_hist fig_cols data cutoff))) =
              map (cell_of fig_cols) [0..(count div fig_cols) * fig_cols - 1] \<and>
            snd (hist_panel_gen colors d ds_range ax_hist fig_cols data cutoff) =
              Some ValueError)"
proof -
  have pos: "0 < fig_cols" using assms(2) by simp
  let ?rows = "count div fig_cols"
  let ?m = "?rows * fig_cols"
  let ?run = "hist_panel_gen colors d ds_range ax_hist fig_cols data cutoff"
  have "?m \<le> count" using pos by (rule int_div_mult_le)
  moreover have "?m \<noteq> count" using assms(3) by (metis dvd_triv_right)
  ultimately have le: "?m \<le> count - 1" by simp
  have rows: "floordiv count fig_cols = Inr ?rows"
    using pos by (simp add: floordiv_def)
  have "?rows \<le> (count - 1) div fig_cols"
    using zdiv_mono1 [OF le pos] pos by simp
  then have out: "\<not> in_grid ?rows fig_cols (cell_of fig_cols (count - 1))"
    by (simp add: in_grid_def cell_of_def)
  have refused: "add_subplot ?rows fig_cols ((count - 1) + 1) = Inl ValueError"
    using le by (rule add_subplot_beyond)
  obtain q e where run:
    "hist_loop colors d ds_range ax_hist data cutoff ?rows fig_cols [0..count - 1]
       empty_panel = (q, e)"
    by (cases "hist_loop colors d ds_range ax_hist data cutoff ?rows fig_cols [0..count - 1]
       empty_panel")
  have grid: "list_all (in_grid ?rows fig_cols) (axes q) \<and>
              list_all (in_grid ?rows fig_cols) (map fst (plots q))"
    using run by (rule hist_loop_in_grid) (simp_all add: empty_panel_def)
  have q: "fst ?run = q"
    using pos run by (simp add: hist_panel_gen_def floordiv_def flip: assms(1))
  have no_axes: "cell_of fig_cols (count - 1) \<notin> set (axes (fst ?run))"
    using grid out unfolding q by (auto simp: list_all_iff)
  have no_plot: "cell_of fig_cols (count - 1) \<notin> fst ` set (plots (fst ?run))"
    using grid out unfolding q by (auto simp: list_all_iff)
  have never: "snd ?run \<noteq> None"
    using pos assms(3) unfolding assms(1) by (rule hist_panel_gen_never_completes)
  have drawn: "(\<forall>ds\<in>set (take (nat ?m) data). \<forall>ax. \<forall>col\<in>set colors.
        hist_plot ds_range ax_hist ax ds col cutoff = (True, None)) \<longrightarrow>
      map fst (plots (fst ?run)) = map (cell_of fig_cols) [0..?m - 1] \<and>
      snd ?run = Some ValueError"
  proof
    assume drw: "\<forall>ds\<in>set (take (nat ?m) data). \<forall>ax. \<forall>col\<in>set colors.
        hist_plot ds_range ax_hist ax ds col cutoff = (True, None)"
    have len: "length [0..?m - 1] = length [0 ..< nat ?m]" by simp
    show "map fst (plots (fst ?run)) = map (cell_of fig_cols) [0..?m - 1] \<and>
      snd ?run = Some ValueError"
      unfolding hist_panel_gen_run [OF assms(1) refl pos assms(4) drw]
      using assms(3) map_fst_map2 [OF len] by simp
  qed
  from rows out refused no_axes no_plot never drawn show ?thesis by blast
qed

theorem hist_panel_trailing_variable_dropped_witness:
  "(11::int) = int (length (replicate 11 \<lparr>col_label = StrName ''price'', col_values = [1::nat, 2]\<rparr>)) \<and>
   (1::int) \<le> 2 \<and> \<not> (2::int) dvd 11 \<and> [()] \<noteq> [] \<and>
   floordiv 11 2 = Inr 5 \<and> cell_of 2 10 = (5, 0) \<and> \<not> in_grid 5 2 (5, 0) \<and>
   add_subplot 5 2 11 = Inl ValueError \<and>
   (5, 0) \<notin> set (axes (fst (hist_panel [()] id (\<lambda>vs c. Inr ()) (\<lambda>vs x. None)
      (replicate 11 \<lparr>col_label = StrName ''price'', col_values = [1::nat, 2]\<rparr>) False))) \<and>
   map fst (plots (fst (hist_panel [()] id (\<lambda>vs c. Inr ()) (\<lambda>vs x. None)
      (replicate 11 \<lparr>col_label = StrName ''price'', col_values = [1::nat, 2]\<rparr>) False))) =
     [(0, 0), (0, 1), (1, 0), (1, 1), (2, 0), (2, 1), (3, 0), (3, 1), (4, 0), (4, 1)] \<and>
   snd (hist_panel [()] id (\<lambda>vs c. Inr ()) (\<lambda>vs x. None)
      (replicate 11 \<lparr>col_label = StrName ''price'', col_values = [1::nat, 2]\<rparr>) False) =
     Some ValueError"
proof -
  let ?data = "replicate 11 \<lparr>col_label = StrName ''price'', col_values = [1::nat, 2]\<rparr>"
  let ?run = "hist_panel_gen [()] id (\<lambda>vs c. Inr ()) (\<lambda>vs x. None) 2 ?data False"
  have h: "(11::int) = int (length ?data)" "(1::int) \<le> 2" "\<not> (2::int) dvd 11" "[()] \<noteq> []"
    by simp_all
  have c: "cell_of 2 10 = (5, 0)" by (simp add: cell_of_def)
  have u: "map (cell_of 2) [0..9] =
     [(0, 0), (0, 1), (1, 0), (1, 1), (2, 0), (2, 1), (3, 0), (3, 1), (4, 0), (4, 1)]"
    by code_simp
  have dh: "\<forall>ds\<in>set (take (nat ((11 div 2) * 2)) ?data). \<forall>ax. \<forall>col\<in>set [()].
      hist_plot (\<lambda>vs c. Inr ()) (\<lambda>vs x. None) ax ds col False = (True, None)"
    by (simp add: hist_plot_def)
  note th = hist_panel_trailing_variable_dropped [OF h, where d = id
      and ds_range = "\<lambda>vs c. Inr ()" and ax_hist = "\<lambda>vs x. None" and cutoff = False]
  from th have 1: "floordiv 11 2 = Inr (11 div 2)" by blast
  from th have 2: "\<not> in_grid (11 div 2) 2 (cell_of 2 (11 - 1))" by blast
  from th have 3: "add_subplot (11 div 2) 2 ((11 - 1) + 1) = Inl ValueError" by blast
  from th have 4: "cell_of 2 (11 - 1) \<notin> set (axes (fst ?run))" by blast
  from th dh have 5: "map fst (plots (fst ?run)) = map (cell_of 2) [0..(11 div 2) * 2 - 1]"
    by blast
  from th dh have 6: "snd ?run = Some ValueError" by blast
  show ?thesis
    using 1 2 3 4 5 6 c u by (simp add: hist_panel_def)
qed

text \<open>
  C10. For every odd \<open>count \<ge> 1\<close> the grid of \<open>hist_panel\<close> has \<open>count div 2\<close> rows of 2,
  that is \<open>count - 1\<close> positions. When the first \<open>count - 1\<close> columns can be drawn, the
  loop places them and then asks for position \<open>count\<close> for the last one, which is
  outside the grid: the library refuses it and \<open>hist_panel\<close> ends with that ValueError
  instead of skipping the column.
\<close>

theorem hist_panel_odd_count_out_of_grid:
  assumes "count = int (length data)" "1 \<le> count" "odd count" "colors \<noteq> []"
    and "\<forall>ds\<in>set (take (nat (count - 1)) data). \<forall>ax. \<forall>col\<in>set colors.
           hist_plot ds_range ax_hist ax ds col cutoff = (True, None)"
  shows "floordiv count 2 = Inr (count div 2) \<and>
         (count div 2) * 2 = count - 1 \<and>
         length (axes (fst (hist_panel colors d ds_range ax_hist data cutoff))) =
           nat (count - 1) \<and>
         length (plots (fst (hist_panel colors d ds_range ax_hist data cutoff))) =
           nat (count - 1) \<and>
         (count div 2) * 2 < (count - 1) + 1 \<and>
         add_subplot (count div 2) 2 ((count - 1) + 1) = Inl ValueError \<and>
         snd (hist_panel colors d ds_range ax_hist data cutoff) = Some ValueError"
proof -
  have cap: "(count div 2) * 2 = count - 1"
    using assms(3) by presburger
  have nd: "\<not> (2::int) dvd count" using assms(3) by simp
  have drw: "\<forall>ds\<in>set (take (nat ((count div 2) * 2)) data). \<forall>ax. \<forall>col\<in>set colors.
           hist_plot ds_range ax_hist ax ds col cutoff = (True, None)"
    using assms(5) by (simp add: cap)
  have run: "hist_panel colors d ds_range ax_hist data cutoff =
     (\<lparr>axes = map (cell_of 2) [0..count - 1 - 1],
       plots = map2 (\<lambda>i k. (cell_of 2 i, colors ! (d k mod length colors)))
                 [0..count - 1 - 1] [0 ..< nat (count - 1)],
       draws = nat (count - 1)\<rparr>, Some ValueError)"
    using hist_panel_gen_run [OF assms(1) refl _ assms(4) drw, of d] nd
    by (simp add: hist_panel_def cap)
  have refused: "add_subplot (count div 2) 2 ((count - 1) + 1) = Inl ValueError"
    by (rule add_subplot_beyond) (simp add: cap)
  have len: "length [0..count - 1 - 1] = nat (count - 1)" using assms(2) by simp
  show ?thesis
    using cap refused len by (simp add: run floordiv_def)
qed

theorem hist_panel_odd_count_out_of_grid_witness:
  "(11::int) = int (length (replicate 11 \<lparr>col_label = StrName ''price'', col_values = [1::nat, 2]\<rparr>)) \<and>
   (1::int) \<le> 11 \<and> odd (11::int) \<and> [()] \<noteq> [] \<and>
   list_all (\<lambda>ds. hist_plot (\<lambda>vs c. Inr ()) (\<lambda>vs x. None) (0, 0) ds () False = (True, None))
     (take 10 (replicate 11 \<lparr>col_label = StrName ''price'', col_values = [1::nat, 2]\<rparr>)) \<and>
   floordiv 11 2 = Inr 5 \<and> (5::int) * 2 = 11 - 1 \<and>
   length (axes (fst (hist_panel [()] id (\<lambda>vs c. Inr ()) (\<lambda>vs x. None)
      (replicate 11 \<lparr>col_label = StrName ''price'', col_values = [1::nat, 2]\<rparr>) False))) = 10 \<and>
   add_subplot 5 2 11 = Inl ValueError \<and>
   snd (hist_panel [()] id (\<lambda>vs c. Inr ()) (\<lambda>vs x. None)
      (replicate 11 \<lparr>col_label = StrName ''price'', col_values = [1::nat, 2]\<rparr>) False) =
     Some ValueError"
proof -
  let ?data = "replicate 11 \<lparr>col_label = StrName ''price'', col_values = [1::nat, 2]\<rparr>"
  have h: "(11::int) = int (length ?data)" "(1::int) \<le> 11" "odd (11::int)" "[()] \<noteq> []"
    by simp_all
  have dh: "\<forall>ds\<in>set (take (nat (11 - 1)) ?data). \<forall>ax. \<forall>col\<in>set [()].
      hist_plot (\<lambda>vs c. Inr ()) (\<lambda>vs x. None) ax ds col False = (True, None)"
    by (simp add: hist_plot_def)
  have l: "list_all (\<lambda>ds. hist_plot (\<lambda>vs c. Inr ()) (\<lambda>vs x. None) (0, 0) ds () False =
      (True, None)) (take 10 ?data)"
    by (simp add: hist_plot_def list_all_iff)
  show ?thesis
    using hist_panel_odd_count_out_of_grid [OF h dh, of id] l by simp
qed

subsection \<open>The layout does not depend on the colours\<close>

lemma hist_loop_independent:
  assumes "colors1 \<noteq> []" "colors2 \<noteq> []"
    and "map fst (plots p1) = map fst (plots p2)" "axes p1 = axes p2"
  shows "map fst (plots (fst (hist_loop colors1 d1 ds_range ax_hist data cutoff nrows fig_cols
                               is p1))) =
           map fst (plots (fst (hist_loop colors2 d2 ds_range ax_hist data cutoff nrows fig_cols
                                 is p2))) \<and>
         axes (fst (hist_loop colors1 d1 ds_range ax_hist data cutoff nrows fig_cols is p1)) =
           axes (fst (hist_loop colors2 d2 ds_range ax_hist data cutoff nrows fig_cols is p2)) \<and>
         snd (hist_loop colors1 d1 ds_range ax_hist data cutoff nrows fig_cols is p1) =
           snd (hist_loop colors2 d2 ds_range ax_hist data cutoff nrows fig_cols is p2)"
  using assms(3,4)
proof (induction "is" arbitrary: p1 p2)
  case Nil
  then show ?case by simp
next
  case (Cons i "is")
  show ?case
  proof (cases "add_subplot nrows fig_cols (i + 1)")
    case (Inl e)
    then show ?thesis using Cons.prems by simp
  next
    case ax: (Inr ax)
    show ?thesis
    proof (cases "iloc data i")
      case (Inl e)
      then show ?thesis using ax Cons.prems by (simp add: Let_def)
    next
      case ds: (Inr ds)
      let ?c1 = "colors1 ! (d1 (draws p1) mod length colors1)"
      let ?c2 = "colors2 ! (d2 (draws p2) mod length colors2)"
      let ?res = "hist_plot ds_range ax_hist ax ds ?c1 cutoff"
      have res: "hist_plot ds_range ax_hist ax ds ?c2 cutoff = ?res"
        by (rule hist_plot_args)
      let ?q1 = "p1\<lparr>axes := axes p1 @ [ax], draws := Suc (draws p1)\<rparr>"
      let ?q2 = "p2\<lparr>axes := axes p2 @ [ax], draws := Suc (draws p2)\<rparr>"
      let ?r1 = "if fst ?res then ?q1\<lparr>plots := plots ?q1 @ [(ax, ?c1)]\<rparr> else ?q1"
      let ?r2 = "if fst ?res then ?q2\<lparr>plots := plots ?q2 @ [(ax, ?c2)]\<rparr> else ?q2"
      have rel: "map fst (plots ?r1) = map fst (plots ?r2)" "axes ?r1 = axes ?r2"
        using Cons.prems by simp_all
      show ?thesis
      proof (cases "snd ?res")
        case None
        from Cons.IH [OF rel] show ?thesis
          using ax ds None assms(1,2) res
          by (cases "fst ?res") (simp_all add: random_choice_nonempty Let_def)
      next
        case (Some e)
        then show ?thesis
          using ax ds rel assms(1,2) res
          by (cases "fst ?res") (simp_all add: random_choice_nonempty Let_def)
      qed
    qed
  qed
qed

lemma box_loop_independent:
  assumes "colors1 \<noteq> []" "colors2 \<noteq> []"
    and "map fst (plots p1) = map fst (plots p2)" "axes p1 = axes p2"
  shows "map fst (plots (fst (box_loop colors1 d1 sns_boxplot arr fig_cols ps p1))) =
           map fst (plots (fst (box_loop colors2 d2 sns_boxplot arr fig_cols ps p2))) \<and>
         axes (fst (box_loop colors1 d1 sns_boxplot arr fig_cols ps p1)) =
           axes (fst (box_loop colors2 d2 sns_boxplot arr fig_cols ps p2)) \<and>
         snd (box_loop colors1 d1 sns_boxplot arr fig_cols ps p1) =
           snd (box_loop colors2 d2 sns_boxplot arr fig_cols ps p2)"
  using assms(3,4)
proof (induction ps arbitrary: p1 p2)
  case Nil
  then show ?case by simp
next
  case (Cons x ps)
  obtain i subdata where x: "x = (i, subdata)" by (cases x)
  show ?case
  proof (cases "axes_index arr (cell_of fig_cols i)")
    case (Inl e)
    then show ?thesis using Cons.prems by (simp add: x)
  next
    case ax: (Inr ax)
    let ?c1 = "colors1 ! (d1 (draws p1) mod length colors1)"
    let ?c2 = "colors2 ! (d2 (draws p2) mod length colors2)"
    show ?thesis
    proof (cases "sns_boxplot subdata")
      case None
      let ?q1 = "p1\<lparr>draws := Suc (draws p1), plots := plots p1 @ [(ax, ?c1)]\<rparr>"
      let ?q2 = "p2\<lparr>draws := Suc (draws p2), plots := plots p2 @ [(ax, ?c2)]\<rparr>"
      have "map fst (plots ?q1) = map fst (plots ?q2)" "axes ?q1 = axes ?q2"
        using Cons.prems by simp_all
      from Cons.IH [OF this] show ?thesis
        using ax None assms(1,2) by (simp add: x random_choice_nonempty Let_def)
    next
      case (Some e)
      then show ?thesis
        using ax Cons.prems assms(1,2) by (simp add: x random_choice_nonempty Let_def)
    qed
  qed
qed

text \<open>What the loops do to the state besides the plots.\<close>

lemma box_loop_axes:
  "axes (fst (box_loop colors d sns_boxplot arr fig_cols ps p)) = axes p"
proof (induction ps arbitrary: p)
  case Nil
  show ?case by simp
next
  case (Cons x ps)
  obtain i subdata where x: "x = (i, subdata)" by (cases x)
  show ?case
    by (simp add: x Cons.IH Let_def split: sum.splits option.splits)
qed

lemma box_loop_draws:
  assumes "draws p = length (plots p)"
  shows "draws (fst (box_loop colors d sns_boxplot arr fig_cols ps p)) =
           length (plots (fst (box_loop colors d sns_boxplot arr fig_cols ps p))) \<or>
         draws (fst (box_loop colors d sns_boxplot arr fig_cols ps p)) =
           Suc (length (plots (fst (box_loop colors d sns_boxplot arr fig_cols ps p))))"
  using assms
proof (induction ps arbitrary: p)
  case Nil
  then show ?case by simp
next
  case (Cons x ps)
  obtain i subdata where x: "x = (i, subdata)" by (cases x)
  show ?case
  proof (cases "axes_index arr (cell_of fig_cols i)")
    case (Inl e)
    then show ?thesis using Cons.prems by (simp add: x)
  next
    case ax: (Inr ax)
    show ?thesis
    proof (cases "random_choice colors (d (draws p))")
      case (Inl e)
      then show ?thesis using ax Cons.prems by (simp add: x)
    next
      case col: (Inr col)
      show ?thesis
      proof (cases "sns_boxplot subdata")
        case None
        let ?q = "p\<lparr>draws := Suc (draws p), plots := plots p @ [(ax, col)]\<rparr>"
        have "draws ?q = length (plots ?q)" using Cons.prems by simp
        from Cons.IH [OF this] show ?thesis
          using ax col None by (simp add: x Let_def)
      next
        case (Some e)
        then show ?thesis using ax col Cons.prems by (simp add: x Let_def)
      qed
    qed
  qed
qed

lemma hist_loop_draws:
  assumes "colors \<noteq> []" "\<forall>i\<in>set is. 0 \<le> i \<and> i < int (length data)"
    and "draws p = length (axes p)"
  shows "draws (fst (hist_loop colors d ds_range ax_hist data cutoff nrows fig_cols is p)) =
         length (axes (fst (hist_loop colors d ds_range ax_hist data cutoff nrows fig_cols is p)))"
  using assms(2,3)
proof (induction "is" arbitrary: p)
  case Nil
  then show ?case by simp
next
  case (Cons i "is")
  show ?case
  proof (cases "add_subplot nrows fig_cols (i + 1)")
    case (Inl e)
    then show ?thesis using Cons.prems by simp
  next
    case ax: (Inr ax)
    have l: "iloc data i = Inr (data ! nat i)" using Cons.prems(1) by (simp add: iloc_ok)
    let ?c = "colors ! (d (draws p) mod length colors)"
    let ?res = "hist_plot ds_range ax_hist ax (data ! nat i) ?c cutoff"
    let ?q = "p\<lparr>axes := axes p @ [ax], draws := Suc (draws p)\<rparr>"
    let ?r = "if fst ?res then ?q\<lparr>plots := plots ?q @ [(ax, ?c)]\<rparr> else ?q"
    have inv: "draws ?r = length (axes ?r)" using Cons.prems(2) by simp
    have rest: "\<forall>i\<in>set is. 0 \<le> i \<and> i < int (length data)" using Cons.prems(1) by simp
    show ?thesis
    proof (cases "snd ?res")
      case None
      from Cons.IH [OF rest inv] show ?thesis
        using ax l None assms(1)
        by (cases "fst ?res") (simp_all add: random_choice_nonempty Let_def)
    next
      case (Some e)
      then show ?thesis
        using ax l inv assms(1)
        by (cases "fst ?res") (simp_all add: random_choice_nonempty Let_def)
    qed
  qed
qed

text \<open>
  C6. The cell of a plot is a function of its index and of the number of columns only,
  and computing it changes nothing: whatever the palette and whatever the random
  generator does, \<open>box_plot\<close> and \<open>hist_panel\<close> on the same table ask for the same cells
  in the same order, hold the same axes and end the same way, also when a column
  cannot be drawn. The only state that moves is the random generator's, and it moves
  with the plots, not with the cells: \<open>hist_panel\<close> has used it once for each axes it
  made, \<open>box_plot\<close> once for each box plot drawn and once more when a box plot failed;
  the axes of \<open>box_plot\<close> are those made before the loop.
\<close>

theorem layout_independent_of_random_state:
  assumes "colors1 \<noteq> []" "colors2 \<noteq> []"
  shows "map fst (plots (fst (box_plot_gen colors1 d1 sns_boxplot fig_cols data))) =
           map fst (plots (fst (box_plot_gen colors2 d2 sns_boxplot fig_cols data))) \<and>
         axes (fst (box_plot_gen colors1 d1 sns_boxplot fig_cols data)) =
           axes (fst (box_plot_gen colors2 d2 sns_boxplot fig_cols data)) \<and>
         snd (box_plot_gen colors1 d1 sns_boxplot fig_cols data) =
           snd (box_plot_gen colors2 d2 sns_boxplot fig_cols data) \<and>
         axes (fst (hist_panel_gen colors1 d1 ds_range ax_hist fig_cols data cutoff)) =
           axes (fst (hist_panel_gen colors2 d2 ds_range ax_hist fig_cols data cutoff)) \<and>
         map fst (plots (fst (hist_panel_gen colors1 d1 ds_range ax_hist fig_cols data cutoff))) =
           map fst (plots (fst (hist_panel_gen colors2 d2 ds_range ax_hist fig_cols data
                                  cutoff))) \<and>
         snd (hist_panel_gen colors1 d1 ds_range ax_hist fig_cols data cutoff) =
           snd (hist_panel_gen colors2 d2 ds_range ax_hist fig_cols data cutoff) \<and>
         draws (fst (hist_panel_gen colors1 d1 ds_range ax_hist fig_cols data cutoff)) =
           length (axes (fst (hist_panel_gen colors1 d1 ds_range ax_hist fig_cols data
                                cutoff))) \<and>
         (draws (fst (box_plot_gen colors1 d1 sns_boxplot fig_cols data)) =
            length (plots (fst (box_plot_gen colors1 d1 sns_boxplot fig_cols data))) \<or>
          draws (fst (box_plot_gen colors1 d1 sns_boxplot fig_cols data)) =
            Suc (length (plots (fst (box_plot_gen colors1 d1 sns_boxplot fig_cols data))))) \<and>
         (axes (fst (box_plot_gen colors1 d1 sns_boxplot fig_cols data)) = [] \<or>
          axes (fst (box_plot_gen colors1 d1 sns_boxplot fig_cols data)) =
            List.product [0..int (length data) div fig_cols - 1] [0..fig_cols - 1])"
proof -
  let ?n = "int (length data)"
  have e: "map fst (plots (empty_panel :: 'a panel)) = map fst (plots (empty_panel :: 'b panel))"
    "axes (empty_panel :: 'a panel) = axes (empty_panel :: 'b panel)"
    by (simp_all add: empty_panel_def)
  have g: "map fst (plots ((empty_panel :: 'a panel)\<lparr>axes := cs\<rparr>)) =
           map fst (plots ((empty_panel :: 'b panel)\<lparr>axes := cs\<rparr>))"
    "axes ((empty_panel :: 'a panel)\<lparr>axes := cs\<rparr>) = axes ((empty_panel :: 'b panel)\<lparr>axes := cs\<rparr>)"
    for cs
    by (simp_all add: empty_panel_def)
  have box: "map fst (plots (fst (box_plot_gen colors1 d1 sns_boxplot fig_cols data))) =
           map fst (plots (fst (box_plot_gen colors2 d2 sns_boxplot fig_cols data))) \<and>
         axes (fst (box_plot_gen colors1 d1 sns_boxplot fig_cols data)) =
           axes (fst (box_plot_gen colors2 d2 sns_boxplot fig_cols data)) \<and>
         snd (box_plot_gen colors1 d1 sns_boxplot fig_cols data) =
           snd (box_plot_gen colors2 d2 sns_boxplot fig_cols data)"
  proof (cases "floordiv ?n fig_cols")
    case (Inl err)
    then show ?thesis by (simp add: box_plot_gen_def empty_panel_def)
  next
    case r: (Inr fig_rows)
    show ?thesis
    proof (cases "subplots fig_rows fig_cols")
      case (Inl err)
      then show ?thesis using r by (simp add: box_plot_gen_def empty_panel_def)
    next
      case (Inr arr)
      then show ?thesis
        using r box_loop_independent [OF assms g, where ?d1.0 = d1 and ?d2.0 = d2
            and sns_boxplot = sns_boxplot and arr = arr and fig_cols = fig_cols
            and ps = "enumerate_columns data"]
        by (simp add: box_plot_gen_def)
    qed
  qed
  have hist: "axes (fst (hist_panel_gen colors1 d1 ds_range ax_hist fig_cols data cutoff)) =
           axes (fst (hist_panel_gen colors2 d2 ds_range ax_hist fig_cols data cutoff)) \<and>
         map fst (plots (fst (hist_panel_gen colors1 d1 ds_range ax_hist fig_cols data cutoff))) =
           map fst (plots (fst (hist_panel_gen colors2 d2 ds_range ax_hist fig_cols data
                                  cutoff))) \<and>
         snd (hist_panel_gen colors1 d1 ds_range ax_hist fig_cols data cutoff) =
           snd (hist_panel_gen colors2 d2 ds_range ax_hist fig_cols data cutoff)"
  proof (cases "floordiv ?n fig_cols")
    case (Inl err)
    then show ?thesis by (simp add: hist_panel_gen_def empty_panel_def)
  next
    case (Inr nrows)
    then show ?thesis
      using hist_loop_independent [OF assms e, where ?d1.0 = d1 and ?d2.0 = d2
          and ds_range = ds_range and ax_hist = ax_hist and data = data and cutoff = cutoff
          and nrows = nrows and fig_cols = fig_cols and ?is.0 = "[0..?n - 1]"]
      by (simp add: hist_panel_gen_def)
  qed
  have d_hist: "draws (fst (hist_panel_gen colors1 d1 ds_range ax_hist fig_cols data cutoff)) =
      length (axes (fst (hist_panel_gen colors1 d1 ds_range ax_hist fig_cols data cutoff)))"
  proof (cases "floordiv ?n fig_cols")
    case (Inl err)
    then show ?thesis by (simp add: hist_panel_gen_def empty_panel_def)
  next
    case (Inr nrows)
    have rng: "\<forall>i\<in>set [0..?n - 1]. 0 \<le> i \<and> i < int (length data)" by simp
    have z: "draws (empty_panel :: 'a panel) = length (axes (empty_panel :: 'a panel))"
      by (simp add: empty_panel_def)
    show ?thesis
      using Inr hist_loop_draws [OF assms(1) rng z, where d = d1 and ds_range = ds_range
          and ax_hist = ax_hist and cutoff = cutoff and nrows = nrows and fig_cols = fig_cols]
      by (simp add: hist_panel_gen_def)
  qed
  have d_box: "draws (fst (box_plot_gen colors1 d1 sns_boxplot fig_cols data)) =
            length (plots (fst (box_plot_gen colors1 d1 sns_boxplot fig_cols data))) \<or>
          draws (fst (box_plot_gen colors1 d1 sns_boxplot fig_cols data)) =
            Suc (length (plots (fst (box_plot_gen colors1 d1 sns_boxplot fig_cols data))))"
  proof (cases "floordiv ?n fig_cols")
    case (Inl err)
    then show ?thesis by (simp add: box_plot_gen_def empty_panel_def)
  next
    case r: (Inr fig_rows)
    show ?thesis
    proof (cases "subplots fig_rows fig_cols")
      case (Inl err)
      then show ?thesis using r by (simp add: box_plot_gen_def empty_panel_def)
    next
      case (Inr arr)
      have z: "draws ((empty_panel :: 'a panel)\<lparr>axes := cs\<rparr>) =
               length (plots ((empty_panel :: 'a panel)\<lparr>axes := cs\<rparr>))" for cs
        by (simp add: empty_panel_def)
      show ?thesis
        using r Inr box_loop_draws [OF z, where colors = colors1 and d = d1
            and sns_boxplot = sns_boxplot and arr = arr and fig_cols = fig_cols
            and ps = "enumerate_columns data"]
        by (simp add: box_plot_gen_def)
    qed
  qed
  have a_box: "axes (fst (box_plot_gen colors1 d1 sns_boxplot fig_cols data)) = [] \<or>
          axes (fst (box_plot_gen colors1 d1 sns_boxplot fig_cols data)) =
            List.product [0..?n div fig_cols - 1] [0..fig_cols - 1]"
    by (simp add: box_plot_gen_def floordiv_def box_loop_axes empty_panel_def Let_def
        split: sum.splits)
  from box hist d_hist d_box a_box show ?thesis by blast
qed

theorem layout_independent_of_random_state_witness:
  "[()] \<noteq> [] \<and> [True, False] \<noteq> [] \<and>
   hist_panel_gen [()] id (\<lambda>vs c. if vs = [] then Inl ValueError else Inr ()) (\<lambda>vs x. None) 2
     [\<lparr>col_label = StrName ''price'', col_values = [1::nat, 2]\<rparr>,
      \<lparr>col_label = StrName ''reach'', col_values = [3, 4]\<rparr>,
      \<lparr>col_label = StrName ''empty'', col_values = []\<rparr>,
      \<lparr>col_label = StrName ''total'', col_values = [5, 6]\<rparr>,
      \<lparr>col_label = StrName ''other'', col_values = [7, 8]\<rparr>] False =
     (\<lparr>axes = [(0, 0), (0, 1), (1, 0)], plots = [((0, 0), ()), ((0, 1), ())], draws = 3\<rparr>,
      Some ValueError) \<and>
   axes (fst (hist_panel_gen [True, False] Suc
     (\<lambda>vs c. if vs = [] then Inl ValueError else Inr ()) (\<lambda>vs x. None) 2
     [\<lparr>col_label = StrName ''price'', col_values = [1::nat, 2]\<rparr>,
      \<lparr>col_label = StrName ''reach'', col_values = [3, 4]\<rparr>,
      \<lparr>col_label = StrName ''empty'', col_values = []\<rparr>,
      \<lparr>col_label = StrName ''total'', col_values = [5, 6]\<rparr>,
      \<lparr>col_label = StrName ''other'', col_values = [7, 8]\<rparr>] False)) =
     [(0, 0), (0, 1), (1, 0)] \<and>
   map fst (plots (fst (hist_panel_gen [True, False] Suc
     (\<lambda>vs c. if vs = [] then Inl ValueError else Inr ()) (\<lambda>vs x. None) 2
     [\<lparr>col_label = StrName ''price'', col_values = [1::nat, 2]\<rparr>,
      \<lparr>col_label = StrName ''reach'', col_values = [3, 4]\<rparr>,
      \<lparr>col_label = StrName ''empty'', col_values = []\<rparr>,
      \<lparr>col_label = StrName ''total'', col_values = [5, 6]\<rparr>,
      \<lparr>col_label = StrName ''other'', col_values = [7, 8]\<rparr>] False))) =
     [(0, 0), (0, 1)] \<and>
   snd (hist_panel_gen [True, False] Suc
     (\<lambda>vs c. if vs = [] then Inl ValueError else Inr ()) (\<lambda>vs x. None) 2
     [\<lparr>col_label = StrName ''price'', col_values = [1::nat, 2]\<rparr>,
      \<lparr>col_label = StrName ''reach'', col_values = [3, 4]\<rparr>,
      \<lparr>col_label = StrName ''empty'', col_values = []\<rparr>,
      \<lparr>col_label = StrName ''total'', col_values = [5, 6]\<rparr>,
      \<lparr>col_label = StrName ''other'', col_values = [7, 8]\<rparr>] False) = Some ValueError \<and>
   box_plot_gen [()] id (\<lambda>ds. None) 2
     [\<lparr>col_label = StrName ''price'', col_values = [1::nat, 2]\<rparr>,
      \<lparr>col_label = StrName ''reach'', col_values = [3, 4]\<rparr>,
      \<lparr>col_label = StrName ''empty'', col_values = []\<rparr>,
      \<lparr>col_label = StrName ''total'', col_values = [5, 6]\<rparr>,
      \<lparr>col_label = StrName ''other'', col_values = [7, 8]\<rparr>] =
     (\<lparr>axes = [(0, 0), (0, 1), (1, 0), (1, 1)],
       plots = [((0, 0), ()), ((0, 1), ()), ((1, 0), ()), ((1, 1), ())], draws = 4\<rparr>,
      Some IndexError) \<and>
   map fst (plots (fst (box_plot_gen [True, False] Suc (\<lambda>ds. None) 2
     [\<lparr>col_label = StrName ''price'', col_values = [1::nat, 2]\<rparr>,
      \<lparr>col_label = StrName ''reach'', col_values = [3, 4]\<rparr>,
      \<lparr>col_label = StrName ''empty'', col_values = []\<rparr>,
      \<lparr>col_label = StrName ''total'', col_values = [5, 6]\<rparr>,
      \<lparr>col_label = StrName ''other'', col_values = [7, 8]\<rparr>]))) =
     [(0, 0), (0, 1), (1, 0), (1, 1)] \<and>
   snd (box_plot_gen [True, False] Suc (\<lambda>ds. None) 2
     [\<lparr>col_label = StrName ''price'', col_values = [1::nat, 2]\<rparr>,
      \<lparr>col_label = StrName ''reach'', col_values = [3, 4]\<rparr>,
      \<lparr>col_label = StrName ''empty'', col_values = []\<rparr>,
      \<lparr>col_label = StrName ''total'', col_values = [5, 6]\<rparr>,
      \<lparr>col_label = StrName ''other'', col_values = [7, 8]\<rparr>]) = Some IndexError"
proof -
  let ?data = "[\<lparr>col_label = StrName ''price'', col_values = [1::nat, 2]\<rparr>,
      \<lparr>col_label = StrName ''reach'', col_values = [3, 4]\<rparr>,
      \<lparr>col_label = StrName ''empty'', col_values = []\<rparr>,
      \<lparr>col_label = StrName ''total'', col_values = [5, 6]\<rparr>,
      \<lparr>col_label = StrName ''other'', col_values = [7, 8]\<rparr>]"
  let ?R = "\<lambda>(vs :: nat list) (c :: bool). if vs = [] then Inl ValueError else Inr ()"
  let ?H = "\<lambda>(vs :: nat list) (x :: unit). None :: error option"
  let ?B = "\<lambda>ds :: nat series. None :: error option"
  have h: "[()] \<noteq> []" "[True, False] \<noteq> []" by simp_all
  have eh: "hist_panel_gen [()] id ?R ?H 2 ?data False =
     (\<lparr>axes = [(0, 0), (0, 1), (1, 0)], plots = [((0, 0), ()), ((0, 1), ())], draws = 3\<rparr>,
      Some ValueError)"
    by code_simp
  have eb: "box_plot_gen [()] id ?B 2 ?data =
     (\<lparr>axes = [(0, 0), (0, 1), (1, 0), (1, 1)],
       plots = [((0, 0), ()), ((0, 1), ()), ((1, 0), ()), ((1, 1), ())], draws = 4\<rparr>,
      Some IndexError)"
    by code_simp
  note th = layout_independent_of_random_state [OF h, where ?d1.0 = id and ?d2.0 = Suc
      and sns_boxplot = ?B and fig_cols = 2 and data = ?data and ds_range = ?R
      and ax_hist = ?H and cutoff = False]
  from th have 1: "map fst (plots (fst (box_plot_gen [()] id ?B 2 ?data))) =
      map fst (plots (fst (box_plot_gen [True, False] Suc ?B 2 ?data)))" by blast
  from th have 2: "snd (box_plot_gen [()] id ?B 2 ?data) =
      snd (box_plot_gen [True, False] Suc ?B 2 ?data)" by blast
  from th have 3: "axes (fst (hist_panel_gen [()] id ?R ?H 2 ?data False)) =
      axes (fst (hist_panel_gen [True, False] Suc ?R ?H 2 ?data False))" by blast
  from th have 4: "map fst (plots (fst (hist_panel_gen [()] id ?R ?H 2 ?data False))) =
      map fst (plots (fst (hist_panel_gen [True, False] Suc ?R ?H 2 ?data False)))" by blast
  from th have 5: "snd (hist_panel_gen [()] id ?R ?H 2 ?data False) =
      snd (hist_panel_gen [True, False] Suc ?R ?H 2 ?data False)" by blast
  show ?thesis
    using 1 2 3 4 5 eh eb by simp
qed

subsection \<open>Tables whose number of columns is odd\<close>

text \<open>
  C4. \<open>box_plot\<close> on a table of 11 columns: the row count is \<open>11 // 2 = 5\<close>, not 6; the
  last column's index pair is \<open>(5, 0)\<close>, which the 5 by 2 array of axes does not have.
  Whatever the columns hold, the call does not complete and draws at most ten box
  plots; when the first ten columns can be drawn, it draws ten box plots and ends with
  IndexError.
\<close>

theorem box_plot_eleven_columns:
  "floordiv 11 2 = Inr 5 \<and> subplots 5 2 = Inr (Grid 5 2) \<and> cell_of 2 10 = (5, 0) \<and>
   axes_index (Grid 5 2) (cell_of 2 10) = Inl IndexError \<and>
   snd (box_plot colors d sns_boxplot [c0, c1, c2, c3, c4, c5, c6, c7, c8, c9, c10]) \<noteq> None \<and>
   length (plots (fst (box_plot [()] id (\<lambda>ds. None)
      [c0, c1, c2, c3, c4, c5, c6, c7, c8, c9, c10]))) = 10 \<and>
   snd (box_plot [()] id (\<lambda>ds. None) [c0, c1, c2, c3, c4, c5, c6, c7, c8, c9, c10]) =
     Some IndexError"
proof -
  let ?data = "[c0, c1, c2, c3, c4, c5, c6, c7, c8, c9, c10]"
  have len: "(11::int) = int (length ?data)" by simp
  have nd: "\<not> (2::int) dvd int (length ?data)" by simp
  have never: "snd (box_plot colors d sns_boxplot ?data) \<noteq> None"
    unfolding box_plot_def by (rule box_plot_gen_never_completes [OF _ nd]) simp
  have drw: "\<forall>ds\<in>set (take (nat ((11 div 2) * 2)) ?data). (\<lambda>ds. None) ds = None" by simp
  have run: "box_plot_gen [()] id (\<lambda>ds. None) 2 ?data =
     (\<lparr>axes = List.product [0..11 div 2 - 1] [0..2 - 1],
       plots = map2 (\<lambda>i k. (cell_of 2 i, [()] ! (id k mod length [()])))
                 [0..(11 div 2) * 2 - 1] [0 ..< nat ((11 div 2) * 2)],
       draws = nat ((11 div 2) * 2)\<rparr>,
      if (2::int) dvd 11 then None else Some IndexError)"
    by (rule box_plot_gen_run [OF len refl _ _ _ drw]) simp_all
  have "length (plots (fst (box_plot [()] id (\<lambda>ds. None) ?data))) = 10 \<and>
        snd (box_plot [()] id (\<lambda>ds. None) ?data) = Some IndexError"
    unfolding box_plot_def run by simp
  moreover have "floordiv 11 2 = Inr 5 \<and> subplots 5 2 = Inr (Grid 5 2) \<and>
     cell_of 2 10 = (5, 0) \<and> axes_index (Grid 5 2) (cell_of 2 10) = Inl IndexError"
    by (simp add: floordiv_def subplots_def cell_of_def axes_index_def)
  ultimately show ?thesis using never by blast
qed

text \<open>
  C5. A table of 11 columns meets the contract of the layout (two columns in a row, a
  count that is not negative), and both panels fail on it, whatever its columns hold,
  the palette and the random generator: \<open>hist_panel\<close> when it asks for position 11 of a
  grid of 10 positions, \<open>box_plot\<close> when it indexes row 5 of an array of 5 rows. When
  the first ten columns can be drawn the errors are the plotting library's ValueError
  and Python's IndexError.
\<close>

theorem layout_fails_on_valid_input:
  "(0::int) < 2 \<and> (0::int) \<le> int (length [c0, c1, c2, c3, c4, c5, c6, c7, c8, c9, c10]) \<and>
   floordiv (int (length [c0, c1, c2, c3, c4, c5, c6, c7, c8, c9, c10])) 2 = Inr 5 \<and>
   snd (hist_panel colors d ds_range ax_hist [c0, c1, c2, c3, c4, c5, c6, c7, c8, c9, c10]
          cutoff) \<noteq> None \<and>
   snd (box_plot colors d sns_boxplot [c0, c1, c2, c3, c4, c5, c6, c7, c8, c9, c10]) \<noteq> None \<and>
   hist_panel [()] id (\<lambda>vs c. Inr ()) (\<lambda>vs x. None)
     (replicate 11 \<lparr>col_label = StrName ''price'', col_values = [1::nat, 2]\<rparr>) False =
     (\<lparr>axes = map (cell_of 2) [0..9], plots = map (\<lambda>i. (cell_of 2 i, ())) [0..9],
       draws = 10\<rparr>, Some ValueError) \<and>
   snd (box_plot [()] id (\<lambda>ds. None)
     (replicate 11 \<lparr>col_label = StrName ''price'', col_values = [1::nat, 2]\<rparr>)) =
     Some IndexError"
proof -
  let ?data = "[c0, c1, c2, c3, c4, c5, c6, c7, c8, c9, c10]"
  let ?tbl = "replicate 11 \<lparr>col_label = StrName ''price'', col_values = [1::nat, 2]\<rparr>"
  have nd: "\<not> (2::int) dvd int (length ?data)" by simp
  have rows: "floordiv (int (length ?data)) 2 = Inr 5" by (simp add: floordiv_def)
  have h: "snd (hist_panel colors d ds_range ax_hist ?data cutoff) \<noteq> None"
    unfolding hist_panel_def by (rule hist_panel_gen_never_completes [OF _ nd]) simp
  have b: "snd (box_plot colors d sns_boxplot ?data) \<noteq> None"
    unfolding box_plot_def by (rule box_plot_gen_never_completes [OF _ nd]) simp
  have len: "(11::int) = int (length ?tbl)" by simp
  have dh: "\<forall>ds\<in>set (take (nat ((11 div 2) * 2)) ?tbl). \<forall>ax. \<forall>col\<in>set [()].
      hist_plot (\<lambda>vs c. Inr ()) (\<lambda>vs x. None) ax ds col False = (True, None)"
    by (simp add: hist_plot_def)
  have db: "\<forall>ds\<in>set (take (nat ((11 div 2) * 2)) ?tbl). (\<lambda>ds. None) ds = None" by simp
  have hrun: "hist_panel_gen [()] id (\<lambda>vs c. Inr ()) (\<lambda>vs x. None) 2 ?tbl False =
     (\<lparr>axes = map (cell_of 2) [0..(11 div 2) * 2 - 1],
       plots = map2 (\<lambda>i k. (cell_of 2 i, [()] ! (id k mod length [()])))
                 [0..(11 div 2) * 2 - 1] [0 ..< nat ((11 div 2) * 2)],
       draws = nat ((11 div 2) * 2)\<rparr>,
      if (2::int) dvd 11 then None else Some ValueError)"
    by (rule hist_panel_gen_run [OF len refl _ _ dh]) simp_all
  have brun: "box_plot_gen [()] id (\<lambda>ds. None) 2 ?tbl =
     (\<lparr>axes = List.product [0..11 div 2 - 1] [0..2 - 1],
       plots = map2 (\<lambda>i k. (cell_of 2 i, [()] ! (id k mod length [()])))
                 [0..(11 div 2) * 2 - 1] [0 ..< nat ((11 div 2) * 2)],
       draws = nat ((11 div 2) * 2)\<rparr>,
      if (2::int) dvd 11 then None else Some IndexError)"
    by (rule box_plot_gen_run [OF len refl _ _ _ db]) simp_all
  have m2: "map2 (\<lambda>i k. (cell_of 2 i, ())) [0..9] [0 ..< 10] = map (\<lambda>i. (cell_of 2 i, ())) [0..9]"
    by code_simp
  have hv: "hist_panel [()] id (\<lambda>vs c. Inr ()) (\<lambda>vs x. None) ?tbl False =
     (\<lparr>axes = map (cell_of 2) [0..9], plots = map (\<lambda>i. (cell_of 2 i, ())) [0..9],
       draws = 10\<rparr>, Some ValueError)"
    unfolding hist_panel_def hrun using m2 by simp
  have bv: "snd (box_plot [()] id (\<lambda>ds. None) ?tbl) = Some IndexError"
    unfolding box_plot_def brun by simp
  from rows h b hv bv show ?thesis by simp
qed

subsection \<open>Colours\<close>








subsection \<open>The palette of the source\<close>

lemma COLORS_distinct_iff:
  "distinct (COLORS set2 set3) \<longleftrightarrow> distinct set2 \<and> distinct set3 \<and> set set2 \<inter> set set3 = {}"
  by (simp add: COLORS_def)

text \<open>
  C8. The palette is the 8 colours of Set2 followed by the 12 colours of Set3: it is
  not empty and no colour occurs twice in it.
\<close>

theorem palette_nonempty_distinct:
  "COLORS palette_Set2 palette_Set3 \<noteq> [] \<and>
   distinct (COLORS palette_Set2 palette_Set3) \<and>
   length (COLORS palette_Set2 palette_Set3) = 20"
proof -
  have "distinct palette_Set2" by (simp add: palette_Set2_def)
  moreover have "distinct palette_Set3" by (simp add: palette_Set3_def)
  moreover have "set palette_Set2 \<inter> set palette_Set3 = {}"
    by (simp add: palette_Set2_def palette_Set3_def)
  ultimately have "distinct (COLORS palette_Set2 palette_Set3)"
    by (simp add: COLORS_distinct_iff)
  moreover have "length (COLORS palette_Set2 palette_Set3) = 20"
    by (simp add: COLORS_def palette_Set2_def palette_Set3_def)
  moreover have "COLORS palette_Set2 palette_Set3 \<noteq> []"
    by (simp add: COLORS_def palette_Set2_def)
  ultimately show ?thesis by simp
qed

subsection \<open>\<open>read_data\<close>\<close>

lemma col_index_Some:
  "col_index name cs = Some j \<Longrightarrow> j < length cs \<and> cs ! j = name"
proof (induction cs arbitrary: j)
  case Nil
  then show ?case by simp
next
  case (Cons c cs)
  show ?case
  proof (cases "c = name")
    case True
    with Cons.prems show ?thesis by simp
  next
    case False
    with Cons.prems obtain k where k: "col_index name cs = Some k" "j = Suc k" by auto
    with Cons.IH [OF k(1)] show ?thesis by simp
  qed
qed

lemma column_after_update_same:
  assumes "length vs = length rs" "\<forall>r\<in>set rs. j < length r"
  shows "map (\<lambda>r. r ! j) (map2 (\<lambda>r v. r[j := v]) rs vs) = vs"
  using assms by (induction vs rs rule: list_induct2) simp_all

lemma column_after_update_other:
  assumes "length vs = length rs" "k \<noteq> j"
  shows "map (\<lambda>r. r ! k) (map2 (\<lambda>r v. r[j := v]) rs vs) = map (\<lambda>r. r ! k) rs"
  using assms by (induction vs rs rule: list_induct2) simp_all

lemma row_lengths_after_update:
  assumes "length vs = length rs" "\<forall>r\<in>set rs. length r = n"
  shows "\<forall>r\<in>set (map2 (\<lambda>r v. r[j := v]) rs vs). length r = n"
  using assms by (induction vs rs rule: list_induct2) simp_all

lemma parse_column_Inr:
  assumes "parse_column to_datetime data name = Inr out"
  shows "\<exists>j parsed. col_index name (columns data) = Some j \<and>
           to_datetime (map (\<lambda>r. r ! j) (rowlist data)) = Inr parsed \<and>
           length parsed = length (rowlist data) \<and>
           columns out = columns data \<and>
           rowlist out = map2 (\<lambda>r v. r[j := v]) (rowlist data) parsed"
  using assms
  by (auto simp: parse_column_def get_column_def set_column_def
      split: option.splits sum.splits if_splits)


text \<open>
  C9. \<open>read_data\<close> reads the file once. When it returns a table, the rows are those of
  the file, without the rows that have a missing value if and only if \<open>drop_na\<close> is
  set; the columns \<open>date_posted\<close> and \<open>datefullyfunded\<close> hold what \<open>to_datetime\<close> makes of
  them; every other column is as it was read. (Rows of the file are as long as its
  header.)
\<close>

theorem read_data_drops_and_parses:
  assumes "read_csv (INPUT_DIR @ file_name) = Inr data"
    and "\<forall>r\<in>set (rowlist data). length r = length (columns data)"
    and "snd (read_data read_csv to_datetime file_name drop_na) = Inr out"
  shows "fst (read_data read_csv to_datetime file_name drop_na) = [INPUT_DIR @ file_name] \<and>
         columns out = columns data \<and>
         (let kept = (if drop_na then filter (list_all (\<lambda>v. v \<noteq> None)) (rowlist data)
                      else rowlist data)
          in length (rowlist out) = length kept \<and>
             (\<exists>j1 j2.
                col_index ''date_posted'' (columns data) = Some j1 \<and>
                col_index ''datefullyfunded'' (columns data) = Some j2 \<and>
                to_datetime (map (\<lambda>r. r ! j1) kept) = Inr (map (\<lambda>r. r ! j1) (rowlist out)) \<and>
                to_datetime (map (\<lambda>r. r ! j2) kept) = Inr (map (\<lambda>r. r ! j2) (rowlist out)) \<and>
                (\<forall>k. k \<noteq> j1 \<and> k \<noteq> j2 \<longrightarrow>
                   map (\<lambda>r. r ! k) (rowlist out) = map (\<lambda>r. r ! k) kept)))"
proof -
  define kept where
    "kept = (if drop_na then filter (list_all (\<lambda>v. v \<noteq> None)) (rowlist data) else rowlist data)"
  define data1 where "data1 = (if drop_na then dropna data else data)"
  have c1: "columns data1 = columns data" and r1: "rowlist data1 = kept"
    by (simp_all add: data1_def kept_def dropna_def)
  have wf1: "\<forall>r\<in>set kept. length r = length (columns data)"
    using assms(2) by (simp add: kept_def)
  from assms(1,3) obtain data2 where
    p1: "parse_column to_datetime data1 ''date_posted'' = Inr data2" and
    p2: "parse_column to_datetime data2 ''datefullyfunded'' = Inr out"
    by (auto simp: read_data_def data1_def Let_def split: sum.splits)
  from parse_column_Inr [OF p1] obtain j1 parsed1 where
    j1: "col_index ''date_posted'' (columns data) = Some j1" and
    t1: "to_datetime (map (\<lambda>r. r ! j1) kept) = Inr parsed1" and
    l1: "length parsed1 = length kept" and
    c2: "columns data2 = columns data" and
    r2: "rowlist data2 = map2 (\<lambda>r v. r[j1 := v]) kept parsed1"
    by (auto simp: c1 r1)
  from parse_column_Inr [OF p2] obtain j2 parsed2 where
    j2: "col_index ''datefullyfunded'' (columns data) = Some j2" and
    t2: "to_datetime (map (\<lambda>r. r ! j2) (rowlist data2)) = Inr parsed2" and
    l2: "length parsed2 = length (rowlist data2)" and
    c3: "columns out = columns data" and
    r3: "rowlist out = map2 (\<lambda>r v. r[j2 := v]) (rowlist data2) parsed2"
    by (auto simp: c2)
  have b1: "j1 < length (columns data)" "columns data ! j1 = ''date_posted''"
    using col_index_Some [OF j1] by simp_all
  have b2: "j2 < length (columns data)" "columns data ! j2 = ''datefullyfunded''"
    using col_index_Some [OF j2] by simp_all
  have ne: "j1 \<noteq> j2" using b1(2) b2(2) by auto
  have wf2: "\<forall>r\<in>set (rowlist data2). length r = length (columns data)"
    unfolding r2 using l1 wf1 by (rule row_lengths_after_update)
  have len2: "length (rowlist data2) = length kept" using l1 by (simp add: r2)
  have len3: "length (rowlist out) = length kept" using l2 len2 by (simp add: r3)
  have col2_other: "\<And>k. k \<noteq> j1 \<Longrightarrow> map (\<lambda>r. r ! k) (rowlist data2) = map (\<lambda>r. r ! k) kept"
    unfolding r2 using l1 by (rule column_after_update_other)
  have col3_other: "\<And>k. k \<noteq> j2 \<Longrightarrow> map (\<lambda>r. r ! k) (rowlist out) = map (\<lambda>r. r ! k) (rowlist data2)"
    unfolding r3 using l2 by (rule column_after_update_other)
  have first: "map (\<lambda>r. r ! j1) (rowlist out) = parsed1"
  proof -
    have "map (\<lambda>r. r ! j1) (rowlist out) = map (\<lambda>r. r ! j1) (rowlist data2)"
      using ne by (rule col3_other)
    also have "\<dots> = parsed1"
      unfolding r2 using l1 wf1 b1(1) by (intro column_after_update_same) simp_all
    finally show ?thesis .
  qed
  have second: "map (\<lambda>r. r ! j2) (rowlist out) = parsed2"
    unfolding r3 using l2 wf2 b2(1) by (intro column_after_update_same) simp_all
  have t2': "to_datetime (map (\<lambda>r. r ! j2) kept) = Inr parsed2"
    using t2 col2_other [of j2] ne by simp
  have others: "\<forall>k. k \<noteq> j1 \<and> k \<noteq> j2 \<longrightarrow>
      map (\<lambda>r. r ! k) (rowlist out) = map (\<lambda>r. r ! k) kept"
    using col2_other col3_other by simp
  have log: "fst (read_data read_csv to_datetime file_name drop_na) = [INPUT_DIR @ file_name]"
    by (simp add: read_data_def)
  have "length (rowlist out) = length kept \<and>
        (\<exists>j1 j2.
           col_index ''date_posted'' (columns data) = Some j1 \<and>
           col_index ''datefullyfunded'' (columns data) = Some j2 \<and>
           to_datetime (map (\<lambda>r. r ! j1) kept) = Inr (map (\<lambda>r. r ! j1) (rowlist out)) \<and>
           to_datetime (map (\<lambda>r. r ! j2) kept) = Inr (map (\<lambda>r. r ! j2) (rowlist out)) \<and>
           (\<forall>k. k \<noteq> j1 \<and> k \<noteq> j2 \<longrightarrow>
              map (\<lambda>r. r ! k) (rowlist out) = map (\<lambda>r. r ! k) kept))"
    using len3 j1 j2 t1 t2' first second others by blast
  then show ?thesis
    using log c3 unfolding kept_def Let_def by blast
qed


theorem read_data_drops_and_parses_witness:
  "list_all (\<lambda>r. length r = 3)
     [[Some (1::nat), Some 2, Some 3], [None, Some 5, Some 6]] \<and>
   snd (read_data
         (\<lambda>path. Inr \<lparr>columns = [''id'', ''date_posted'', ''datefullyfunded''],
                        rowlist = [[Some (1::nat), Some 2, Some 3], [None, Some 5, Some 6]]\<rparr>)
         (\<lambda>series. Inr (map (map_option (\<lambda>v. v + 100)) series)) ''projects.csv'' True) =
     Inr \<lparr>columns = [''id'', ''date_posted'', ''datefullyfunded''],
          rowlist = [[Some 1, Some 102, Some 103]]\<rparr> \<and>
   fst (read_data
         (\<lambda>path. Inr \<lparr>columns = [''id'', ''date_posted'', ''datefullyfunded''],
                        rowlist = [[Some (1::nat), Some 2, Some 3], [None, Some 5, Some 6]]\<rparr>)
         (\<lambda>series. Inr (map (map_option (\<lambda>v. v + 100)) series)) ''projects.csv'' True) =
     [''../data/projects.csv'']"
proof -
  let ?data = "\<lparr>columns = [''id'', ''date_posted'', ''datefullyfunded''],
                rowlist = [[Some (1::nat), Some 2, Some 3], [None, Some 5, Some 6]]\<rparr>"
  let ?read_csv = "\<lambda>path :: string. (Inr ?data :: error + nat frame)"
  let ?to_datetime = "\<lambda>series :: nat option list.
     (Inr (map (map_option (\<lambda>v. v + 100)) series) :: error + nat option list)"
  let ?out = "\<lparr>columns = [''id'', ''date_posted'', ''datefullyfunded''],
               rowlist = [[Some (1::nat), Some 102, Some 103]]\<rparr>"
  have a1: "?read_csv (INPUT_DIR @ ''projects.csv'') = Inr ?data" by simp
  have a2: "\<forall>r\<in>set (rowlist ?data). length r = length (columns ?data)" by simp
  have a3: "snd (read_data ?read_csv ?to_datetime ''projects.csv'' True) = Inr ?out"
    by (simp add: read_data_def dropna_def parse_column_def get_column_def set_column_def)
  have "fst (read_data ?read_csv ?to_datetime ''projects.csv'' True) =
      [INPUT_DIR @ ''projects.csv'']"
    using read_data_drops_and_parses [OF a1 a2 a3] by blast
  then show ?thesis using a3 by (simp add: INPUT_DIR_def)
qed

end
